theory Spec2Isabelle
  imports Complex_Main "HOL-Library.AList"
begin

section \<open>Python values and exceptions\<close>

text \<open>
  The metadata document handed over by the extraction tool is a tree of Python
  dictionaries, lists and scalars, and \<^verbatim>\<open>downloader.py\<close> reads it with
  \<^verbatim>\<open>d[k]\<close>, \<^verbatim>\<open>d.get(k, default)\<close> and \<^verbatim>\<open>d[k] = v\<close>. A dictionary is an association
  list with string keys in insertion order (the first binding of a key is the one that
  counts). A string is a list of characters with code points below 256. \<open>PFloat r\<close> stands
  for the double nearest to the rational \<open>r\<close>, which lies below the overflow threshold;
  \<open>PInfinity neg\<close> is an infinity (\<open>neg\<close> for the negative one) and \<open>PNaN\<close> is not-a-number.
\<close>

datatype pyval =
    PNone
  | PBool bool
  | PInt int
  | PFloat rat
  | PInfinity bool
  | PNaN
  | PStr string
  | PList "pyval list"
  | PDict "(string \<times> pyval) list"

text \<open>
  Every exception class the module can raise or let through. \<open>OutsideModel\<close> is not a
  Python exception: it marks a file operation whose effect depends on directory
  structure that the flat file-system model below does not represent.
\<close>

datatype py_exn =
    KeyError
  | TypeError
  | AttributeError
  | IndexError
  | ValueError string
  | OverflowError
  | FileNotFoundError
  | FileExistsError
  | ShutilError
  | RuntimeError
  | MediaDownloaderError string
  | OutsideModel

text \<open>\<^verbatim>\<open>v[k]\<close> for a string key: only a dictionary can be subscripted by a string.\<close>

fun getitem :: "pyval \<Rightarrow> string \<Rightarrow> py_exn + pyval" where
  "getitem (PDict d) k = (case map_of d k of None \<Rightarrow> Inl KeyError | Some v \<Rightarrow> Inr v)"
| "getitem _ k = Inl TypeError"

text \<open>\<^verbatim>\<open>v.get(k, default)\<close>: only a dictionary has the method.\<close>

fun get_method :: "pyval \<Rightarrow> string \<Rightarrow> pyval \<Rightarrow> py_exn + pyval" where
  "get_method (PDict d) k dflt = Inr (case map_of d k of None \<Rightarrow> dflt | Some v \<Rightarrow> v)"
| "get_method _ k dflt = Inl AttributeError"

text \<open>\<^verbatim>\<open>v[k] = x\<close> for a string key: an existing key keeps its place, a new one is appended.\<close>

fun setitem :: "pyval \<Rightarrow> string \<Rightarrow> pyval \<Rightarrow> py_exn + pyval" where
  "setitem (PDict d) k x = Inr (PDict (AList.update k x d))"
| "setitem _ k x = Inl TypeError"

text \<open>\<^verbatim>\<open>v[0]\<close>. The keys of a modelled dictionary are strings, so \<open>0\<close> is never one.\<close>

fun getitem0 :: "pyval \<Rightarrow> py_exn + pyval" where
  "getitem0 (PList xs) = (case xs of [] \<Rightarrow> Inl IndexError | x # _ \<Rightarrow> Inr x)"
| "getitem0 (PStr s) = (case s of [] \<Rightarrow> Inl IndexError | c # _ \<Rightarrow> Inr (PStr [c]))"
| "getitem0 (PDict d) = Inl KeyError"
| "getitem0 _ = Inl TypeError"

text \<open>\<^verbatim>\<open>len(v)\<close>.\<close>

fun py_len :: "pyval \<Rightarrow> py_exn + nat" where
  "py_len (PList xs) = Inr (length xs)"
| "py_len (PStr s) = Inr (length s)"
| "py_len (PDict d) = Inr (length d)"
| "py_len _ = Inl TypeError"

text \<open>The items a \<^verbatim>\<open>for\<close> loop over \<open>v\<close> visits.\<close>

fun py_iter :: "pyval \<Rightarrow> py_exn + pyval list" where
  "py_iter (PList xs) = Inr xs"
| "py_iter (PStr s) = Inr (map (\<lambda>c. PStr [c]) s)"
| "py_iter (PDict d) = Inr (map (\<lambda>kv. PStr (fst kv)) d)"
| "py_iter _ = Inl TypeError"

text \<open>
  Truth value of an object, as \<^verbatim>\<open>if not meta\<close> tests it. A float is false when it is
  zero: when \<open>r\<close> is at most half the least positive double.
\<close>

fun py_truthy :: "pyval \<Rightarrow> bool" where
  "py_truthy PNone = False"
| "py_truthy (PBool b) = b"
| "py_truthy (PInt i) = (i \<noteq> 0)"
| "py_truthy (PFloat r) = (\<bar>r\<bar> > 1 / 2 ^ 1075)"
| "py_truthy (PInfinity neg) = True"
| "py_truthy PNaN = True"
| "py_truthy (PStr s) = (s \<noteq> [])"
| "py_truthy (PList xs) = (xs \<noteq> [])"
| "py_truthy (PDict d) = (d \<noteq> [])"

text \<open>
  \<^verbatim>\<open>s.rsplit(sep, 1)[-1]\<close> for a one-character separator: what follows the last
  separator, or all of \<open>s\<close> when it has none.
\<close>

definition rsplit_last :: "char \<Rightarrow> string \<Rightarrow> string" where
  "rsplit_last sep s = rev (takeWhile (\<lambda>c. c \<noteq> sep) (rev s))"

fun rsplit_last_method :: "char \<Rightarrow> pyval \<Rightarrow> py_exn + pyval" where
  "rsplit_last_method sep (PStr s) = Inr (PStr (rsplit_last sep s))"
| "rsplit_last_method sep _ = Inl AttributeError"

section \<open>The builtin float\<close>

text \<open>
  \<^verbatim>\<open>float(x)\<close> on a string. A string that is not ASCII first has its white space turned
  into blanks and any other character from 127 on into a question mark (no character
  below 256 is a decimal digit other than the ASCII ones); the characters below 127 stay
  as they are.
\<close>

definition to_ascii :: "char \<Rightarrow> char" where
  "to_ascii c =
     (let n = (of_char c :: nat) in
      if n < 127 then c
      else if n = 133 \<or> n = 160 then CHR 0x20
      else CHR 0x3F)"

text \<open>
  Underscores are then checked and removed: one may stand only between two digits.
  \<open>prev\<close> is the character before, the null character at the start.
\<close>

definition is_digit :: "char \<Rightarrow> bool" where
  "is_digit c = (let n = (of_char c :: nat) in 48 \<le> n \<and> n \<le> 57)"

fun underscores_ok :: "char \<Rightarrow> string \<Rightarrow> bool" where
  "underscores_ok prev [] = (prev \<noteq> CHR ''_'')"
| "underscores_ok prev (c # cs) =
     ((if c = CHR ''_'' then is_digit prev
       else if prev = CHR ''_'' then is_digit c
       else True) \<and>
      underscores_ok c cs)"

text \<open>
  What is left is read between optional white space (tab, line feed, vertical tab, form
  feed, carriage return, blank): an optional sign, then \<^verbatim>\<open>inf\<close>, \<^verbatim>\<open>infinity\<close> or
  \<^verbatim>\<open>nan\<close> in either case, or a decimal number with an optional fraction and an optional
  exponent.
\<close>

definition is_space :: "char \<Rightarrow> bool" where
  "is_space c = (let n = (of_char c :: nat) in (9 \<le> n \<and> n \<le> 13) \<or> n = 32)"

definition strip :: "string \<Rightarrow> string" where
  "strip s = rev (dropWhile is_space (rev (dropWhile is_space s)))"

definition ascii_lower :: "char \<Rightarrow> char" where
  "ascii_lower c =
     (let n = (of_char c :: nat) in if 65 \<le> n \<and> n \<le> 90 then char_of (n + 32) else c)"

definition digits_val :: "string \<Rightarrow> nat" where
  "digits_val s = foldl (\<lambda>a c. 10 * a + (of_char c - 48)) 0 s"

definition split_sign :: "string \<Rightarrow> bool \<times> string" where
  "split_sign s =
     (case s of
        [] \<Rightarrow> (False, [])
      | c # r \<Rightarrow>
          if c = CHR ''-'' then (True, r)
          else if c = CHR ''+'' then (False, r)
          else (False, s))"

definition parse_exponent :: "string \<Rightarrow> int option" where
  "parse_exponent s =
     (case s of
        [] \<Rightarrow> Some 0
      | c # r \<Rightarrow>
          if c = CHR ''e'' \<or> c = CHR ''E'' then
            (case split_sign r of
               (neg, ds) \<Rightarrow>
                 if ds \<noteq> [] \<and> list_all is_digit ds
                 then Some (if neg then - int (digits_val ds) else int (digits_val ds))
                 else None)
          else None)"

definition scale10 :: "rat \<Rightarrow> int \<Rightarrow> rat" where
  "scale10 m e = (if e < 0 then m / 10 ^ nat (- e) else m * 10 ^ nat e)"

datatype float_text = TextFinite rat | TextInfinity bool | TextNaN | TextBad

definition parse_float_text :: "string \<Rightarrow> float_text" where
  "parse_float_text s =
     (let t = map to_ascii s in
      if underscores_ok (CHR 0x00) t then
        (case split_sign (strip (filter (\<lambda>c. c \<noteq> CHR ''_'') t)) of
           (neg, u) \<Rightarrow>
             let w = map ascii_lower u;
                 ip = takeWhile is_digit u;
                 r1 = dropWhile is_digit u;
                 dotted = (r1 \<noteq> [] \<and> hd r1 = CHR ''.'');
                 fp = (if dotted then takeWhile is_digit (tl r1) else []);
                 r2 = (if dotted then dropWhile is_digit (tl r1) else r1)
             in if w = ''inf'' \<or> w = ''infinity'' then TextInfinity neg
                else if w = ''nan'' then TextNaN
                else if ip = [] \<and> fp = [] then TextBad
                else (case parse_exponent r2 of
                        None \<Rightarrow> TextBad
                      | Some e \<Rightarrow>
                          let m = of_nat (digits_val ip) +
                                  of_nat (digits_val fp) / 10 ^ length fp
                          in TextFinite (scale10 (if neg then - m else m) e)))
      else TextBad)"

text \<open>
  A value rounds to a double unless its magnitude reaches \<open>2 ^ 1024 - 2 ^ 970\<close>, half
  way between the greatest double and \<open>2 ^ 1024\<close>. The threshold is written out.
\<close>

definition float_overflow_threshold :: int where
  "float_overflow_threshold =
     179769313486231580793728971405303415079934132710037826936173778980444968292764750946649017977587207096330286416692887910946555547851940402630657488671505820681908902000708383676273854845817711531764475730270069855571366959622842914819860834936475292719074168444365510704342711559699508093042880177904174497792"

definition float_overflows :: "rat \<Rightarrow> bool" where
  "float_overflows r = (\<bar>r\<bar> \<ge> of_int float_overflow_threshold)"

text \<open>
  \<^verbatim>\<open>repr\<close> of a string, which the message of the \<open>ValueError\<close> quotes: in double quotes
  when the string has a single quote and no double quote, in single quotes otherwise;
  the quote and the backslash escaped, control and other unprintable characters written
  as escapes.
\<close>

definition hex_digit :: "nat \<Rightarrow> char" where
  "hex_digit n = (if n < 10 then char_of (48 + n) else char_of (87 + n))"

definition repr_char :: "char \<Rightarrow> char \<Rightarrow> string" where
  "repr_char quote c =
     (let n = (of_char c :: nat) in
      if c = quote \<or> n = 92 then [CHR 0x5C, c]
      else if n = 9 then [CHR 0x5C, CHR ''t'']
      else if n = 10 then [CHR 0x5C, CHR ''n'']
      else if n = 13 then [CHR 0x5C, CHR ''r'']
      else if n < 32 \<or> (127 \<le> n \<and> n \<le> 160) \<or> n = 173
        then [CHR 0x5C, CHR ''x'', hex_digit (n div 16), hex_digit (n mod 16)]
      else [c])"

definition py_repr :: "string \<Rightarrow> string" where
  "py_repr s =
     (let quote = (if CHR 0x27 \<in> set s \<and> CHR 0x22 \<notin> set s then CHR 0x22 else CHR 0x27)
      in quote # concat (map (repr_char quote) s) @ [quote])"

text \<open>
  \<^verbatim>\<open>float(x)\<close>: \<open>TypeError\<close> for what is neither a number nor a string, \<open>OverflowError\<close>
  for an integer too large for a double, \<open>ValueError\<close> for a string that is not a number;
  a decimal string beyond the range of the doubles gives an infinity.
\<close>

fun py_float :: "pyval \<Rightarrow> py_exn + pyval" where
  "py_float PNone = Inl TypeError"
| "py_float (PBool b) = Inr (PFloat (if b then 1 else 0))"
| "py_float (PInt i) =
     (if float_overflows (of_int i) then Inl OverflowError else Inr (PFloat (of_int i)))"
| "py_float (PFloat r) = Inr (PFloat r)"
| "py_float (PInfinity neg) = Inr (PInfinity neg)"
| "py_float PNaN = Inr PNaN"
| "py_float (PStr s) =
     (case parse_float_text s of
        TextBad \<Rightarrow> Inl (ValueError (''could not convert string to float: '' @ py_repr s))
      | TextInfinity neg \<Rightarrow> Inr (PInfinity neg)
      | TextNaN \<Rightarrow> Inr PNaN
      | TextFinite r \<Rightarrow>
          if float_overflows r then Inr (PInfinity (r < 0)) else Inr (PFloat r))"
| "py_float (PList xs) = Inl TypeError"
| "py_float (PDict d) = Inl TypeError"

section \<open>Duration coercion\<close>

text \<open>
  \<^verbatim>\<open>_to_float\<close>: \<^verbatim>\<open>try: return float(duration)\<close>, \<^verbatim>\<open>except TypeError: return duration\<close>.
  Only a \<open>TypeError\<close> is caught; any other exception of \<^verbatim>\<open>float\<close> leaves the function.
\<close>

definition to_float :: "pyval \<Rightarrow> py_exn + pyval" where
  "to_float duration =
     (case py_float duration of
        Inl TypeError \<Rightarrow> Inr duration
      | Inl e \<Rightarrow> Inl e
      | Inr f \<Rightarrow> Inr f)"

section \<open>Configuration\<close>

text \<open>
  \<^verbatim>\<open>FINAL_AUDIO_FORMAT\<close> and \<^verbatim>\<open>FINAL_THUMBNAIL_FORMAT\<close> are imported from
  \<^verbatim>\<open>ytdl_opts\<close>, which is not part of the module; they are parameters here.
\<close>

record config =
  FINAL_AUDIO_FORMAT :: string
  FINAL_THUMBNAIL_FORMAT :: string

definition PLAYLIST_TYPE :: string where
  "PLAYLIST_TYPE = ''playlist''"

section \<open>The requested video descriptor\<close>

text \<open>
  \<^verbatim>\<open>_get_requested_video\<close>, first loop. The descriptor found is the object inside the
  caller's list, and \<^verbatim>\<open>download_obj['filepath'] = ...\<close> writes into it: the loop returns
  the list as it is after the write together with the descriptor. The default argument
  \<^verbatim>\<open>download_obj['_filename']\<close> is evaluated before either \<^verbatim>\<open>get\<close> is called, so a
  descriptor without that key raises \<open>KeyError\<close> even when it has a \<^verbatim>\<open>filepath\<close>.
\<close>

fun primary_pass :: "string \<Rightarrow> pyval list \<Rightarrow> py_exn + (pyval list \<times> pyval) option" where
  "primary_pass af [] = Inr None"
| "primary_pass af (download_obj # rest) =
     (case get_method download_obj ''ext'' (PStr []) of
        Inl e \<Rightarrow> Inl e
      | Inr ext \<Rightarrow>
          if ext \<noteq> PStr af then
            (case getitem download_obj ''_filename'' of
               Inl e \<Rightarrow> Inl e
             | Inr internal \<Rightarrow>
                 (case get_method download_obj ''filename'' internal of
                    Inl e \<Rightarrow> Inl e
                  | Inr alt \<Rightarrow>
                      (case get_method download_obj ''filepath'' alt of
                         Inl e \<Rightarrow> Inl e
                       | Inr path \<Rightarrow>
                           (case setitem download_obj ''filepath'' path of
                              Inl e \<Rightarrow> Inl e
                            | Inr updated \<Rightarrow> Inr (Some (updated # rest, updated))))))
          else
            (case primary_pass af rest of
               Inl e \<Rightarrow> Inl e
             | Inr None \<Rightarrow> Inr None
             | Inr (Some (rest', found)) \<Rightarrow> Inr (Some (download_obj # rest', found))))"

text \<open>
  Second loop. \<^verbatim>\<open>download_obj.copy()\<close> is a new dictionary with the same bindings, so
  the write goes to the value returned and the caller's list stays as it was. The
  arguments of the log call are evaluated: \<^verbatim>\<open>download_obj_copy['filepath']\<close> raises
  \<open>KeyError\<close> when the key is missing.
\<close>

fun fallback_pass :: "pyval list \<Rightarrow> py_exn + pyval" where
  "fallback_pass [] = Inr PNone"
| "fallback_pass (download_obj # rest) =
     (case getitem download_obj ''ext'' of
        Inl e \<Rightarrow> Inl e
      | Inr ext \<Rightarrow>
          (case getitem download_obj ''_filename'' of
             Inl e \<Rightarrow> Inl e
           | Inr internal \<Rightarrow>
               (case rsplit_last_method CHR ''.'' internal of
                  Inl e \<Rightarrow> Inl e
                | Inr actual \<Rightarrow>
                    if ext \<noteq> actual then
                      (let download_obj_copy = download_obj in
                       case getitem download_obj_copy ''filepath'' of
                         Inl e \<Rightarrow> Inl e
                       | Inr logged \<Rightarrow>
                           (case get_method download_obj_copy ''filename'' internal of
                              Inl e \<Rightarrow> Inl e
                            | Inr path \<Rightarrow> setitem download_obj_copy ''filepath'' path))
                    else fallback_pass rest)))"

text \<open>\<^verbatim>\<open>_get_requested_video\<close>: the list after the call, and the descriptor or \<open>None\<close>.\<close>

definition get_requested_video :: "string \<Rightarrow> pyval list \<Rightarrow> py_exn + (pyval list \<times> pyval)" where
  "get_requested_video af requested_downloads =
     (case primary_pass af requested_downloads of
        Inl e \<Rightarrow> Inl e
      | Inr (Some r) \<Rightarrow> Inr r
      | Inr None \<Rightarrow>
          (case fallback_pass requested_downloads of
             Inl e \<Rightarrow> Inl e
           | Inr found \<Rightarrow> Inr (requested_downloads, found)))"

text \<open>
  \<^verbatim>\<open>self._get_requested_video(holder['requested_downloads'])\<close> for \<open>holder\<close> the document
  or a playlist entry. The descriptors of a list are the objects the loop visits, so the
  list after the call is put back under the key; the items of any other iterable are
  fresh strings. The document is taken to be a tree: no descriptor object occurs in it
  twice.
\<close>

definition store_requested_downloads :: "pyval \<Rightarrow> pyval \<Rightarrow> pyval list \<Rightarrow> pyval" where
  "store_requested_downloads holder rd items =
     (case holder of
        PDict d \<Rightarrow>
          (case rd of
             PList old \<Rightarrow> PDict (AList.update ''requested_downloads'' (PList items) d)
           | _ \<Rightarrow> holder)
      | _ \<Rightarrow> holder)"

definition requested_video_of :: "string \<Rightarrow> pyval \<Rightarrow> py_exn + (pyval \<times> pyval)" where
  "requested_video_of af holder =
     (case getitem holder ''requested_downloads'' of
        Inl e \<Rightarrow> Inl e
      | Inr rd \<Rightarrow>
          (case py_iter rd of
             Inl e \<Rightarrow> Inl e
           | Inr items \<Rightarrow>
               (case get_requested_video af items of
                  Inl e \<Rightarrow> Inl e
                | Inr (items', found) \<Rightarrow>
                    Inr (store_requested_downloads holder rd items', found))))"

text \<open>
  The playlist branch: \<^verbatim>\<open>meta['entries'][0]\<close>, then the call on that entry. It returns
  the document and the entry as they are afterwards, and the descriptor.
\<close>

definition store_first_entry :: "pyval \<Rightarrow> pyval \<Rightarrow> pyval \<Rightarrow> pyval" where
  "store_first_entry meta entries entry =
     (case meta of
        PDict d \<Rightarrow>
          (case entries of
             PList (x # xs) \<Rightarrow> PDict (AList.update ''entries'' (PList (entry # xs)) d)
           | _ \<Rightarrow> meta)
      | _ \<Rightarrow> meta)"

definition entry_requested_video :: "string \<Rightarrow> pyval \<Rightarrow> py_exn + (pyval \<times> pyval \<times> pyval)" where
  "entry_requested_video af meta =
     (case getitem meta ''entries'' of
        Inl e \<Rightarrow> Inl e
      | Inr entries \<Rightarrow>
          (case getitem0 entries of
             Inl e \<Rightarrow> Inl e
           | Inr entry \<Rightarrow>
               (case requested_video_of af entry of
                  Inl e \<Rightarrow> Inl e
                | Inr (entry', found) \<Rightarrow>
                    Inr (store_first_entry meta entries entry', entry', found))))"

text \<open>
  The \<^verbatim>\<open>try\<close> block that ends \<^verbatim>\<open>_get_video_filepath\<close>: it turns \<open>AttributeError\<close> and
  \<open>KeyError\<close> of \<^verbatim>\<open>requested_video['filepath']\<close> into \<open>ValueError\<close>. Subscripting \<open>None\<close>
  raises \<open>TypeError\<close>, which it does not catch.
\<close>

definition filepath_lookup :: "pyval \<Rightarrow> py_exn + pyval" where
  "filepath_lookup requested_video =
     (case getitem requested_video ''filepath'' of
        Inl AttributeError \<Rightarrow> Inl (ValueError ''Video filepath not found'')
      | Inl KeyError \<Rightarrow> Inl (ValueError ''Video filepath not found'')
      | Inl e \<Rightarrow> Inl e
      | Inr path \<Rightarrow> Inr path)"

text \<open>\<^verbatim>\<open>_get_video_filepath\<close>. The first component is the document after the call.\<close>

definition get_video_filepath :: "string \<Rightarrow> pyval \<Rightarrow> pyval \<times> (py_exn + pyval)" where
  "get_video_filepath af meta =
     (case getitem meta ''_type'' of
        Inl e \<Rightarrow> (meta, Inl e)
      | Inr ty \<Rightarrow>
          (case (if ty = PStr PLAYLIST_TYPE
                 then (case entry_requested_video af meta of
                         Inl e \<Rightarrow> Inl e
                       | Inr (meta', entry', found) \<Rightarrow> Inr (meta', found))
                 else requested_video_of af meta) of
             Inl e \<Rightarrow> (meta, Inl e)
           | Inr (meta', requested_video) \<Rightarrow>
               (meta', filepath_lookup requested_video)))"

text \<open>\<^verbatim>\<open>_get_video_filename\<close>: \<^verbatim>\<open>.rsplit('/', maxsplit=1)[-1]\<close> of the path.\<close>

definition get_video_filename :: "string \<Rightarrow> pyval \<Rightarrow> pyval \<times> (py_exn + string)" where
  "get_video_filename af meta =
     (case get_video_filepath af meta of
        (meta', Inl e) \<Rightarrow> (meta', Inl e)
      | (meta', Inr path) \<Rightarrow>
          (meta',
           case path of
             PStr s \<Rightarrow> Inr (rsplit_last CHR ''/'' s)
           | _ \<Rightarrow> Inl AttributeError))"

text \<open>
  The tuple both branches of \<^verbatim>\<open>_get_video_context\<close> return, evaluated left to right:
  \<^verbatim>\<open>(self._to_float(holder.get('duration')), requested_video.get('width'),
  requested_video.get('height'))\<close>.
\<close>

definition video_context_of :: "pyval \<Rightarrow> pyval \<Rightarrow> py_exn + (pyval \<times> pyval \<times> pyval)" where
  "video_context_of holder requested_video =
     (case get_method holder ''duration'' PNone of
        Inl e \<Rightarrow> Inl e
      | Inr d \<Rightarrow>
          (case to_float d of
             Inl e \<Rightarrow> Inl e
           | Inr duration \<Rightarrow>
               (case get_method requested_video ''width'' PNone of
                  Inl e \<Rightarrow> Inl e
                | Inr width \<Rightarrow>
                    (case get_method requested_video ''height'' PNone of
                       Inl e \<Rightarrow> Inl e
                     | Inr height \<Rightarrow> Inr (duration, width, height)))))"

text \<open>\<^verbatim>\<open>_get_video_context\<close>.\<close>

definition get_video_context ::
  "string \<Rightarrow> pyval \<Rightarrow> pyval \<times> (py_exn + (pyval \<times> pyval \<times> pyval))" where
  "get_video_context af meta =
     (case getitem meta ''_type'' of
        Inl e \<Rightarrow> (meta, Inl e)
      | Inr ty \<Rightarrow>
          if ty = PStr PLAYLIST_TYPE then
            (case getitem meta ''entries'' of
               Inl e \<Rightarrow> (meta, Inl e)
             | Inr entries \<Rightarrow>
                 (case py_len entries of
                    Inl e \<Rightarrow> (meta, Inl e)
                  | Inr n \<Rightarrow>
                      if n = 0 then
                        (meta, Inl (ValueError
                           ''Item said to be downloaded but no entries to process.''))
                      else
                        (case entry_requested_video af meta of
                           Inl e \<Rightarrow> (meta, Inl e)
                         | Inr (meta', entry', requested_video) \<Rightarrow>
                             (meta', video_context_of entry' requested_video))))
          else
            (case requested_video_of af meta of
               Inl e \<Rightarrow> (meta, Inl e)
             | Inr (meta', requested_video) \<Rightarrow>
                 (meta', video_context_of meta' requested_video)))"

section \<open>The file system\<close>

text \<open>
  Two directories take part in a resolution: the scratch directory \<^verbatim>\<open>curr_tmp_dir\<close> the
  extraction tool wrote into, and the staging directory \<^verbatim>\<open>destination_dir\<close>. Each is a
  flat list of regular files (name and size, in the order a directory listing yields
  them); the staging directory may not exist. File names are plain: not empty, without
  \<^verbatim>\<open>/\<close>, and neither \<^verbatim>\<open>.\<close> nor \<^verbatim>\<open>..\<close>. The trace lists the calls made to
  \<^verbatim>\<open>mkdir\<close>, \<^verbatim>\<open>shutil.move\<close> and \<^verbatim>\<open>remove_dir\<close>, in order, whatever their outcome.
\<close>

datatype fs_event =
    Mkdir
  | MoveToPath string string
  | MoveIntoDir string
  | RemoveDir

record filesys =
  scratch :: "(string \<times> nat) list"
  staging :: "(string \<times> nat) list option"
  trace :: "fs_event list"

definition plain_name :: "string \<Rightarrow> bool" where
  "plain_name n = (n \<noteq> [] \<and> CHR ''/'' \<notin> set n \<and> n \<noteq> ''.'' \<and> n \<noteq> ''..'')"

text \<open>\<^verbatim>\<open>destination_dir.mkdir()\<close>: \<open>FileExistsError\<close> when the directory is there.\<close>

definition mkdir :: "filesys \<Rightarrow> filesys \<times> (py_exn + unit)" where
  "mkdir fs =
     (let fs1 = fs\<lparr>trace := trace fs @ [Mkdir]\<rparr> in
      case staging fs of
        Some files \<Rightarrow> (fs1, Inl FileExistsError)
      | None \<Rightarrow> (fs1\<lparr>staging := Some []\<rparr>, Inr ()))"

text \<open>
  \<^verbatim>\<open>shutil.move(curr_tmp_dir / src, destination_dir / dst)\<close>, the destination being a
  file path: a rename, which replaces a file of that name (POSIX).
\<close>

definition move_to_path :: "filesys \<Rightarrow> string \<Rightarrow> string \<Rightarrow> filesys \<times> (py_exn + unit)" where
  "move_to_path fs src dst =
     (let fs1 = fs\<lparr>trace := trace fs @ [MoveToPath src dst]\<rparr> in
      if plain_name src \<and> plain_name dst then
        (case staging fs of
           None \<Rightarrow> (fs1, Inl FileNotFoundError)
         | Some files \<Rightarrow>
             (case map_of (scratch fs) src of
                None \<Rightarrow> (fs1, Inl FileNotFoundError)
              | Some sz \<Rightarrow>
                  (fs1\<lparr>scratch := AList.delete src (scratch fs),
                        staging := Some (AList.update dst sz files)\<rparr>, Inr ())))
      else (fs1, Inl OutsideModel))"

text \<open>
  \<^verbatim>\<open>shutil.move(curr_tmp_dir / src, destination_dir)\<close>, the destination being the
  directory: the file keeps its name, and \<^verbatim>\<open>shutil.Error\<close> is raised when the directory
  already has a file of that name. When the directory does not exist the source would be
  renamed to its path, which the model does not represent.
\<close>

definition move_into_dir :: "filesys \<Rightarrow> string \<Rightarrow> filesys \<times> (py_exn + unit)" where
  "move_into_dir fs src =
     (let fs1 = fs\<lparr>trace := trace fs @ [MoveIntoDir src]\<rparr> in
      if plain_name src then
        (case staging fs of
           None \<Rightarrow>
             (case map_of (scratch fs) src of
                None \<Rightarrow> (fs1, Inl FileNotFoundError)
              | Some sz \<Rightarrow> (fs1, Inl OutsideModel))
         | Some files \<Rightarrow>
             (case map_of files src of
                Some other \<Rightarrow> (fs1, Inl ShutilError)
              | None \<Rightarrow>
                  (case map_of (scratch fs) src of
                     None \<Rightarrow> (fs1, Inl FileNotFoundError)
                   | Some sz \<Rightarrow>
                       (fs1\<lparr>scratch := AList.delete src (scratch fs),
                             staging := Some (files @ [(src, sz)])\<rparr>, Inr ()))))
      else (fs1, Inl OutsideModel))"

text \<open>
  Modelled from the spec: \<^verbatim>\<open>remove_dir\<close> of \<^verbatim>\<open>yt_shared.utils.file\<close> is not part of the
  module. The spec calls it recursive directory removal, by which the staging directory
  is deleted wholly.
\<close>

definition remove_dir :: "filesys \<Rightarrow> filesys" where
  "remove_dir fs = fs\<lparr>staging := None, trace := trace fs @ [RemoveDir]\<rparr>"

text \<open>
  Modelled from the spec: \<^verbatim>\<open>file_size\<close> of \<^verbatim>\<open>yt_shared.utils.file\<close> is not part of the
  module. The spec calls it file-size measurement; here it measures a file of the staging
  directory and fails when there is none.
\<close>

definition file_size :: "filesys \<Rightarrow> string \<Rightarrow> py_exn + nat" where
  "file_size fs name =
     (case staging fs of
        None \<Rightarrow> Inl FileNotFoundError
      | Some files \<Rightarrow>
          (case map_of files name of
             None \<Rightarrow> Inl FileNotFoundError
           | Some sz \<Rightarrow> Inr sz))"

text \<open>
  \<^verbatim>\<open>glob.glob(f'*.{extension}', root_dir=root_path)\<close> matches the names that end in a dot
  and the extension and do not begin with a dot.
\<close>

definition glob_match :: "string \<Rightarrow> string \<Rightarrow> bool" where
  "glob_match extension name =
     (name \<noteq> [] \<and> hd name \<noteq> CHR ''.'' \<and>
      take (Suc (length extension)) (rev name) = rev (CHR ''.'' # extension))"

text \<open>\<^verbatim>\<open>_find_downloaded_file\<close>: the first match of the listing, or \<open>None\<close>.\<close>

definition find_downloaded_file :: "filesys \<Rightarrow> string \<Rightarrow> string option" where
  "find_downloaded_file fs extension = find (glob_match extension) (map fst (scratch fs))"

definition path_join :: "string \<Rightarrow> string \<Rightarrow> string" where
  "path_join dir name = dir @ ''/'' @ name"

section \<open>Building the results\<close>

text \<open>
  \<^verbatim>\<open>Audio\<close> and \<^verbatim>\<open>Video\<close> of \<^verbatim>\<open>yt_shared.schemas.media\<close>, as the fields the module
  fills in.
\<close>

record Audio =
  audio_title :: pyval
  audio_original_filename :: string
  audio_duration :: pyval
  audio_directory_path :: string
  audio_file_size :: nat

record Video =
  video_title :: pyval
  video_original_filename :: string
  video_custom_filename :: "string option"
  video_duration :: pyval
  video_width :: pyval
  video_height :: pyval
  video_directory_path :: string
  video_file_size :: nat
  video_thumb_path :: "string option"
  video_thumb_name :: "string option"

datatype DownMediaType = AUDIO | VIDEO | AUDIO_VIDEO | OTHER_MEDIA_TYPE

text \<open>
  \<^verbatim>\<open>_create_video_dto\<close>. The state is the document and the file system; both are
  returned as they are when the function returns or raises.
\<close>

definition create_video_dto ::
  "config \<Rightarrow> pyval \<Rightarrow> filesys \<Rightarrow> string \<Rightarrow> string \<Rightarrow> string option
     \<Rightarrow> (pyval \<times> filesys) \<times> (py_exn + Video)" where
  "create_video_dto cfg meta fs curr_tmp_dir destination_dir custom_video_filename =
     (case get_video_filename (FINAL_AUDIO_FORMAT cfg) meta of
        (meta1, Inl e) \<Rightarrow> ((meta1, fs), Inl e)
      | (meta1, Inr video_filename) \<Rightarrow>
          (let dest_name =
                 (case custom_video_filename of
                    None \<Rightarrow> video_filename
                  | Some c \<Rightarrow> if c \<noteq> [] then c else video_filename)
           in case move_to_path fs video_filename dest_name of
                (fs1, Inl e) \<Rightarrow> ((meta1, fs1), Inl e)
              | (fs1, Inr u) \<Rightarrow>
                  (let thumb_name = find_downloaded_file fs1 (FINAL_THUMBNAIL_FORMAT cfg);
                       found = (case thumb_name of None \<Rightarrow> False | Some t \<Rightarrow> t \<noteq> [])
                   in case (if found then move_into_dir fs1 (the thumb_name)
                            else (fs1, Inr ())) of
                        (fs2, Inl e) \<Rightarrow> ((meta1, fs2), Inl e)
                      | (fs2, Inr u2) \<Rightarrow>
                          (case get_video_context (FINAL_AUDIO_FORMAT cfg) meta1 of
                             (meta2, Inl e) \<Rightarrow> ((meta2, fs2), Inl e)
                           | (meta2, Inr (duration, width, height)) \<Rightarrow>
                               (case getitem meta2 ''title'' of
                                  Inl e \<Rightarrow> ((meta2, fs2), Inl e)
                                | Inr title \<Rightarrow>
                                    (case file_size fs2 dest_name of
                                       Inl e \<Rightarrow> ((meta2, fs2), Inl e)
                                     | Inr sz \<Rightarrow>
                                         ((meta2, fs2),
                                          Inr \<lparr>video_title = title,
                                               video_original_filename = video_filename,
                                               video_custom_filename = custom_video_filename,
                                               video_duration = duration,
                                               video_width = width,
                                               video_height = height,
                                               video_directory_path = destination_dir,
                                               video_file_size = sz,
                                               video_thumb_path =
                                                 (if found
                                                  then Some (path_join destination_dir (the thumb_name))
                                                  else None),
                                               video_thumb_name = thumb_name\<rparr>)))))))"

text \<open>
  \<^verbatim>\<open>_create_audio_dto\<close>. When no file matches, \<^verbatim>\<open>audio_filename\<close> is \<open>None\<close> and
  \<^verbatim>\<open>curr_tmp_dir / audio_filename\<close> raises \<open>TypeError\<close>: a path cannot be joined with
  \<open>None\<close>.
\<close>

definition create_audio_dto ::
  "config \<Rightarrow> pyval \<Rightarrow> filesys \<Rightarrow> string \<Rightarrow> string \<Rightarrow> string option
     \<Rightarrow> (pyval \<times> filesys) \<times> (py_exn + Audio)" where
  "create_audio_dto cfg meta fs curr_tmp_dir destination_dir custom_video_filename =
     (case find_downloaded_file fs (FINAL_AUDIO_FORMAT cfg) of
        None \<Rightarrow> ((meta, fs), Inl TypeError)
      | Some audio_filename \<Rightarrow>
          (case move_into_dir fs audio_filename of
             (fs1, Inl e) \<Rightarrow> ((meta, fs1), Inl e)
           | (fs1, Inr u) \<Rightarrow>
               (case getitem meta ''title'' of
                  Inl e \<Rightarrow> ((meta, fs1), Inl e)
                | Inr title \<Rightarrow>
                    (case file_size fs1 audio_filename of
                       Inl e \<Rightarrow> ((meta, fs1), Inl e)
                     | Inr sz \<Rightarrow>
                         ((meta, fs1),
                          Inr \<lparr>audio_title = title,
                               audio_original_filename = audio_filename,
                               audio_duration = PNone,
                               audio_directory_path = destination_dir,
                               audio_file_size = sz\<rparr>)))))"

text \<open>
  \<^verbatim>\<open>create_dto\<close> inside \<^verbatim>\<open>_create_media_dtos\<close>: on any exception the staging directory is
  removed and the exception is raised again.
\<close>

definition create_dto ::
  "(pyval \<Rightarrow> filesys \<Rightarrow> (pyval \<times> filesys) \<times> (py_exn + 'a)) \<Rightarrow> pyval \<Rightarrow> filesys
     \<Rightarrow> (pyval \<times> filesys) \<times> (py_exn + 'a)" where
  "create_dto func meta fs =
     (case func meta fs of
        ((meta', fs'), Inl e) \<Rightarrow> ((meta', remove_dir fs'), Inl e)
      | ((meta', fs'), Inr dto) \<Rightarrow> ((meta', fs'), Inr dto))"

text \<open>
  \<^verbatim>\<open>_create_media_dtos\<close>. For \<open>AUDIO_VIDEO\<close> the tuple \<^verbatim>\<open>(get_audio(), get_video())\<close> builds
  the audio first. \<open>OTHER_MEDIA_TYPE\<close> stands for any value the \<^verbatim>\<open>match\<close> statement sends
  to its last case.
\<close>

definition create_media_dtos ::
  "config \<Rightarrow> DownMediaType \<Rightarrow> pyval \<Rightarrow> filesys \<Rightarrow> string \<Rightarrow> string \<Rightarrow> string option
     \<Rightarrow> (pyval \<times> filesys) \<times> (py_exn + (Audio option \<times> Video option))" where
  "create_media_dtos cfg media_type meta fs curr_tmp_dir destination_dir custom_video_filename =
     (let get_audio = create_dto
            (\<lambda>m f. create_audio_dto cfg m f curr_tmp_dir destination_dir custom_video_filename);
          get_video = create_dto
            (\<lambda>m f. create_video_dto cfg m f curr_tmp_dir destination_dir custom_video_filename)
      in case media_type of
           AUDIO \<Rightarrow>
             (case get_audio meta fs of
                (st, Inl e) \<Rightarrow> (st, Inl e)
              | (st, Inr a) \<Rightarrow> (st, Inr (Some a, None)))
         | VIDEO \<Rightarrow>
             (case get_video meta fs of
                (st, Inl e) \<Rightarrow> (st, Inl e)
              | (st, Inr v) \<Rightarrow> (st, Inr (None, Some v)))
         | AUDIO_VIDEO \<Rightarrow>
             (case get_audio meta fs of
                (st, Inl e) \<Rightarrow> (st, Inl e)
              | ((meta1, fs1), Inr a) \<Rightarrow>
                  (case get_video meta1 fs1 of
                     (st, Inl e) \<Rightarrow> (st, Inl e)
                   | (st, Inr v) \<Rightarrow> (st, Inr (Some a, Some v))))
         | OTHER_MEDIA_TYPE \<Rightarrow> ((meta, fs), Inl RuntimeError))"

text \<open>
  \<^verbatim>\<open>_download\<close> from the point where \<^verbatim>\<open>extract_info\<close> has returned \<open>meta\<close> and the files
  of \<open>fs\<close>: the two checks, \<^verbatim>\<open>ytdl.sanitize_info(meta)\<close>, \<^verbatim>\<open>destination_dir.mkdir()\<close>, and
  \<^verbatim>\<open>_create_media_dtos\<close>. \<^verbatim>\<open>sanitize_info\<close> belongs to the extraction tool, not to the
  module, and may write into the document it is given: the parameter \<open>sanitize_info\<close>
  yields the document as the call leaves it. The random name of the staging directory
  is the parameter \<open>destination_dir\<close>.
\<close>

definition download_impl ::
  "config \<Rightarrow> (pyval \<Rightarrow> pyval) \<Rightarrow> DownMediaType \<Rightarrow> pyval \<Rightarrow> filesys \<Rightarrow> string \<Rightarrow> string
     \<Rightarrow> string option \<Rightarrow> (pyval \<times> filesys) \<times> (py_exn + (Audio option \<times> Video option))" where
  "download_impl cfg sanitize_info media_type meta fs curr_tmp_dir destination_dir
       custom_filename =
     (if py_truthy meta then
        (if scratch fs \<noteq> [] then
           (let meta1 = sanitize_info meta in
            case mkdir fs of
              (fs1, Inl e) \<Rightarrow> ((meta1, fs1), Inl e)
            | (fs1, Inr u) \<Rightarrow>
                create_media_dtos cfg media_type meta1 fs1 curr_tmp_dir destination_dir
                  custom_filename)
         else ((meta, fs), Inl (MediaDownloaderError ''Nothing downloaded. Is URL valid?'')))
      else ((meta, fs), Inl (MediaDownloaderError ''Error during media download. Check logs.'')))"

section \<open>Notions used in the statements\<close>

text \<open>
  A descriptor whose \<^verbatim>\<open>ext\<close>, read as the first loop reads it, is the configured audio
  format: the first loop passes over it.
\<close>

definition has_audio_ext :: "string \<Rightarrow> pyval \<Rightarrow> bool" where
  "has_audio_ext af d = (get_method d ''ext'' (PStr []) = Inr (PStr af))"

text \<open>
  The normalized path in the spec's words: \<^verbatim>\<open>filepath\<close>, falling back to \<^verbatim>\<open>filename\<close>,
  then to the internal filename.
\<close>

definition normalized_filepath :: "(string \<times> pyval) list \<Rightarrow> pyval \<Rightarrow> pyval" where
  "normalized_filepath kv internal =
     (case map_of kv ''filepath'' of
        Some p \<Rightarrow> p
      | None \<Rightarrow> (case map_of kv ''filename'' of Some f \<Rightarrow> f | None \<Rightarrow> internal))"

text \<open>The path the second loop stores: \<^verbatim>\<open>filename\<close>, else the internal filename.\<close>

definition replaced_filepath :: "(string \<times> pyval) list \<Rightarrow> pyval \<Rightarrow> pyval" where
  "replaced_filepath kv internal =
     (case map_of kv ''filename'' of Some f \<Rightarrow> f | None \<Rightarrow> internal)"

text \<open>
  A descriptor whose declared \<^verbatim>\<open>ext\<close> is the extension of its internal filename: the second
  loop passes over it.
\<close>

definition ext_matches_filename :: "pyval \<Rightarrow> bool" where
  "ext_matches_filename d =
     (case getitem d ''ext'' of
        Inl e \<Rightarrow> False
      | Inr ext \<Rightarrow>
          (case getitem d ''_filename'' of
             Inr (PStr s) \<Rightarrow> ext = PStr (rsplit_last CHR ''.'' s)
           | _ \<Rightarrow> False))"

text \<open>
  The list of descriptors a document is resolved from, when it has one: that of the first
  entry for a playlist, its own otherwise.
\<close>

definition consulted_downloads :: "pyval \<Rightarrow> pyval list option" where
  "consulted_downloads meta =
     (case getitem meta ''_type'' of
        Inl e \<Rightarrow> None
      | Inr ty \<Rightarrow>
          (case (if ty = PStr PLAYLIST_TYPE
                 then (case getitem meta ''entries'' of
                         Inl e \<Rightarrow> Inl e
                       | Inr entries \<Rightarrow>
                           (case getitem0 entries of
                              Inl e \<Rightarrow> Inl e
                            | Inr entry \<Rightarrow> getitem entry ''requested_downloads''))
                 else getitem meta ''requested_downloads'') of
             Inr (PList rds) \<Rightarrow> Some rds
           | _ \<Rightarrow> None))"

text \<open>The document with that list replaced by \<open>rds\<close>.\<close>

definition with_downloads :: "pyval \<Rightarrow> pyval list \<Rightarrow> pyval" where
  "with_downloads meta rds =
     (case getitem meta ''_type'' of
        Inl e \<Rightarrow> meta
      | Inr ty \<Rightarrow>
          if ty = PStr PLAYLIST_TYPE
          then (case getitem meta ''entries'' of
                  Inl e \<Rightarrow> meta
                | Inr entries \<Rightarrow>
                    (case getitem0 entries of
                       Inl e \<Rightarrow> meta
                     | Inr entry \<Rightarrow>
                         store_first_entry meta entries
                           (store_requested_downloads entry (PList []) rds)))
          else store_requested_downloads meta (PList []) rds)"

text \<open>
  The single-item document built from a playlist entry: the entry with \<^verbatim>\<open>_type\<close> set to
  \<open>ty\<close>, a value other than \<^verbatim>\<open>playlist\<close>. An entry that has this \<^verbatim>\<open>_type\<close> already is
  its own single-item document.
\<close>

definition single_item_of :: "pyval \<Rightarrow> pyval \<Rightarrow> pyval" where
  "single_item_of ty entry =
     (case entry of
        PDict d \<Rightarrow> PDict (AList.update ''_type'' ty d)
      | _ \<Rightarrow> entry)"

section \<open>Example inputs\<close>

definition example_config :: config where
  "example_config = \<lparr>FINAL_AUDIO_FORMAT = ''m4a'', FINAL_THUMBNAIL_FORMAT = ''jpg''\<rparr>"

text \<open>A video descriptor without \<^verbatim>\<open>filepath\<close>, and one that has it.\<close>

definition example_video_kv :: "(string \<times> pyval) list" where
  "example_video_kv =
     [(''ext'', PStr ''mp4''), (''_filename'', PStr ''clip.mp4''),
      (''filename'', PStr ''/tmp/s/clip.mp4''), (''width'', PInt 640),
      (''height'', PInt 360)]"

definition example_video_with_path :: pyval where
  "example_video_with_path =
     PDict [(''ext'', PStr ''mp4''), (''_filename'', PStr ''clip.mp4''),
            (''filepath'', PStr ''/tmp/s/clip.mp4'')]"

definition example_audio :: pyval where
  "example_audio =
     PDict [(''ext'', PStr ''m4a''), (''_filename'', PStr ''/tmp/s/clip.m4a''),
            (''filepath'', PStr ''/tmp/s/clip.m4a'')]"

text \<open>
  A video converted to audio with the video file kept: the descriptor says \<^verbatim>\<open>m4a\<close>, its
  internal filename ends in \<^verbatim>\<open>mp4\<close>. The second one lacks \<^verbatim>\<open>filepath\<close>.
\<close>

definition example_kept_kv :: "(string \<times> pyval) list" where
  "example_kept_kv =
     [(''ext'', PStr ''m4a''), (''_filename'', PStr ''/tmp/s/clip.mp4''),
      (''filepath'', PStr ''/tmp/s/clip.m4a'')]"

definition example_kept_without_path :: pyval where
  "example_kept_without_path =
     PDict [(''ext'', PStr ''m4a''), (''_filename'', PStr ''/tmp/s/clip.mp4'')]"

definition example_meta :: pyval where
  "example_meta =
     PDict [(''_type'', PStr ''video''), (''title'', PStr ''Clip''),
            (''duration'', PInt 7),
            (''requested_downloads'', PList [example_audio, PDict example_video_kv])]"

definition example_meta_with_path :: pyval where
  "example_meta_with_path =
     PDict [(''_type'', PStr ''video''), (''title'', PStr ''Clip''),
            (''requested_downloads'', PList [example_audio, example_video_with_path])]"

definition example_kept_meta :: pyval where
  "example_kept_meta =
     PDict [(''_type'', PStr ''video''), (''title'', PStr ''Clip''),
            (''requested_downloads'', PList [example_audio, PDict example_kept_kv])]"

text \<open>
  A document as the extraction tool may return it, without \<^verbatim>\<open>_type\<close> and with the audio
  descriptor only, and an instance of the parameter \<open>sanitize_info\<close> that writes defaults
  for the keys \<^verbatim>\<open>epoch\<close>, \<^verbatim>\<open>_type\<close> and \<^verbatim>\<open>_version\<close> into the document.
\<close>

definition example_raw_meta :: pyval where
  "example_raw_meta =
     PDict [(''title'', PStr ''Clip''), (''requested_downloads'', PList [example_audio])]"

definition setdefault :: "string \<Rightarrow> pyval \<Rightarrow> (string \<times> pyval) list \<Rightarrow> (string \<times> pyval) list" where
  "setdefault k v d = (case map_of d k of None \<Rightarrow> d @ [(k, v)] | Some x \<Rightarrow> d)"

definition example_sanitize_info :: "pyval \<Rightarrow> pyval" where
  "example_sanitize_info meta =
     (case meta of
        PDict d \<Rightarrow>
          PDict (setdefault ''_version'' (PDict [])
                  (setdefault ''_type'' (PStr ''video'')
                    (setdefault ''epoch'' (PInt 1700000000) d)))
      | _ \<Rightarrow> meta)"

definition example_sanitized_meta :: pyval where
  "example_sanitized_meta =
     PDict [(''title'', PStr ''Clip''), (''requested_downloads'', PList [example_audio]),
            (''epoch'', PInt 1700000000), (''_type'', PStr ''video''),
            (''_version'', PDict [])]"

text \<open>A playlist whose one entry carries no \<^verbatim>\<open>_type\<close>.\<close>

definition example_entry :: pyval where
  "example_entry =
     PDict [(''title'', PStr ''Clip''), (''duration'', PInt 7),
            (''requested_downloads'', PList [example_audio, PDict example_video_kv])]"

definition example_playlist :: pyval where
  "example_playlist =
     PDict [(''_type'', PStr ''playlist''), (''title'', PStr ''List''),
            (''entries'', PList [example_entry])]"

definition example_empty_playlist :: pyval where
  "example_empty_playlist =
     PDict [(''_type'', PStr ''playlist''), (''title'', PStr ''List''),
            (''entries'', PList [])]"

text \<open>File systems: after \<^verbatim>\<open>mkdir\<close> with all three files, with one file, and before it.\<close>

definition example_fs :: filesys where
  "example_fs =
     \<lparr>scratch = [(''clip.mp4'', 100), (''clip.m4a'', 10), (''clip.jpg'', 3)],
      staging = Some [], trace = [Mkdir]\<rparr>"

definition example_fs_audio_only :: filesys where
  "example_fs_audio_only =
     \<lparr>scratch = [(''clip.m4a'', 10)], staging = Some [], trace = [Mkdir]\<rparr>"

definition example_fs_video_only :: filesys where
  "example_fs_video_only =
     \<lparr>scratch = [(''clip.mp4'', 100)], staging = Some [], trace = [Mkdir]\<rparr>"

definition example_fs_before :: filesys where
  "example_fs_before =
     \<lparr>scratch = [(''clip.m4a'', 10)], staging = None, trace = []\<rparr>"

definition example_fs_audio_moved :: filesys where
  "example_fs_audio_moved =
     \<lparr>scratch = [], staging = Some [(''clip.m4a'', 10)],
      trace = [Mkdir, MoveIntoDir ''clip.m4a'']\<rparr>"

definition example_audio_dto :: Audio where
  "example_audio_dto =
     \<lparr>audio_title = PStr ''Clip'', audio_original_filename = ''clip.m4a'',
      audio_duration = PNone, audio_directory_path = ''/dl/abcd'', audio_file_size = 10\<rparr>"

section \<open>Facts about the two passes\<close>

lemma getitem_Inr: "getitem v k = Inr x \<longleftrightarrow> (\<exists>d. v = PDict d \<and> map_of d k = Some x)"
  by (cases v) (auto split: option.splits)

lemma update_same_iff: "AList.update k v al = al \<longleftrightarrow> map_of al k = Some v"
proof
  assume "AList.update k v al = al"
  then have "map_of (AList.update k v al) k = map_of al k" by simp
  then show "map_of al k = Some v" by (simp add: update_conv')
next
  assume "map_of al k = Some v"
  then show "AList.update k v al = al" by (rule AList.update_triv)
qed

lemma update_commute:
  "k \<noteq> k' \<Longrightarrow> map_of al k' = Some w \<Longrightarrow>
   AList.update k v (AList.update k' v' al) = AList.update k' v' (AList.update k v al)"
  by (induction al) auto

lemma float_overflow_threshold_eq: "float_overflow_threshold = 2 ^ 1024 - 2 ^ 970"
  unfolding float_overflow_threshold_def by simp

text \<open>What \<open>rsplit_last\<close> returns has no separator and is what follows the last one.\<close>

lemma rsplit_last_segment:
  "sep \<notin> set (rsplit_last sep s) \<and>
   (\<exists>p. s = p @ rsplit_last sep s \<and> (p = [] \<or> last p = sep))"
proof -
  let ?t = "takeWhile (\<lambda>c. c \<noteq> sep) (rev s)"
  let ?d = "dropWhile (\<lambda>c. c \<noteq> sep) (rev s)"
  have a: "sep \<notin> set (rsplit_last sep s)"
    by (auto simp: rsplit_last_def dest: set_takeWhileD)
  have "rev s = ?t @ ?d" by simp
  then have "s = rev ?d @ rev ?t" by (metis rev_append rev_rev_ident)
  moreover have "?d = [] \<or> hd ?d = sep"
    using hd_dropWhile [of "\<lambda>c. c \<noteq> sep" "rev s"] by blast
  then have "rev ?d = [] \<or> last (rev ?d) = sep"
    by (auto simp: last_rev)
  ultimately have "\<exists>p. s = p @ rsplit_last sep s \<and> (p = [] \<or> last p = sep)"
    unfolding rsplit_last_def by blast
  with a show ?thesis by simp
qed

text \<open>The first loop passes over descriptors of the audio format.\<close>

lemma primary_pass_skip:
  "list_all (has_audio_ext af) pre \<Longrightarrow>
   primary_pass af (pre @ rest) =
     (case primary_pass af rest of
        Inl e \<Rightarrow> Inl e
      | Inr None \<Rightarrow> Inr None
      | Inr (Some (rest', found)) \<Rightarrow> Inr (Some (pre @ rest', found)))"
proof (induction pre)
  case Nil
  show ?case by (simp split: sum.splits option.splits)
next
  case (Cons d pre)
  then have pre: "list_all (has_audio_ext af) pre" and "has_audio_ext af d"
    by simp_all
  then have d: "get_method d ''ext'' (PStr []) = Inr (PStr af)"
    by (simp add: has_audio_ext_def)
  show ?case using Cons.IH [OF pre] d
    by (simp split: sum.splits option.splits)
qed

lemma primary_pass_hit:
  assumes "get_method (PDict kv) ''ext'' (PStr []) \<noteq> Inr (PStr af)"
      and "map_of kv ''_filename'' = Some internal"
  shows "primary_pass af (PDict kv # post) =
           Inr (Some (PDict (AList.update ''filepath'' (normalized_filepath kv internal) kv) # post,
                      PDict (AList.update ''filepath'' (normalized_filepath kv internal) kv)))"
  using assms by (simp add: normalized_filepath_def split: option.splits)

lemma primary_pass_select:
  assumes "list_all (has_audio_ext af) pre"
      and "\<not> has_audio_ext af (PDict kv)"
      and "map_of kv ''_filename'' = Some internal"
  shows "primary_pass af (pre @ PDict kv # post) =
           Inr (Some (pre @ PDict (AList.update ''filepath'' (normalized_filepath kv internal) kv) # post,
                      PDict (AList.update ''filepath'' (normalized_filepath kv internal) kv)))"
proof -
  have "get_method (PDict kv) ''ext'' (PStr []) \<noteq> Inr (PStr af)"
    using assms(2) by (simp add: has_audio_ext_def)
  from primary_pass_hit [OF this assms(3)] primary_pass_skip [OF assms(1)]
  show ?thesis by simp
qed

lemma primary_pass_none:
  "list_all (has_audio_ext af) rds \<Longrightarrow> primary_pass af rds = Inr None"
  using primary_pass_skip [of af rds "[]"] by simp

text \<open>What the first loop returns is a dictionary, never \<open>None\<close>.\<close>

lemma primary_pass_found_dict:
  "primary_pass af rds = Inr (Some (rds', found)) \<Longrightarrow> \<exists>kv. found = PDict kv"
proof (induction rds arbitrary: rds')
  case Nil
  then show ?case by simp
next
  case (Cons d rds)
  show ?case
  proof (cases "get_method d ''ext'' (PStr []) = Inr (PStr af)")
    case True
    with Cons.prems obtain r where "primary_pass af rds = Inr (Some (r, found))"
      by (auto split: sum.splits option.splits)
    then show ?thesis by (rule Cons.IH)
  next
    case False
    with Cons.prems show ?thesis
      by (cases d) (auto split: sum.splits option.splits)
  qed
qed

lemma get_requested_video_none:
  assumes "get_requested_video af rds = Inr (rds', PNone)"
  shows "rds' = rds"
proof (cases "primary_pass af rds")
  case (Inl e)
  with assms show ?thesis by (simp add: get_requested_video_def)
next
  case (Inr r)
  show ?thesis
  proof (cases r)
    case None
    with Inr assms show ?thesis
      by (auto simp: get_requested_video_def split: sum.splits)
  next
    case (Some p)
    with Inr assms have "primary_pass af rds = Inr (Some (rds', PNone))"
      by (simp add: get_requested_video_def)
    from primary_pass_found_dict [OF this] show ?thesis by simp
  qed
qed

text \<open>The second loop passes over descriptors whose extension is that of the file.\<close>

lemma fallback_pass_skip:
  "list_all ext_matches_filename pre \<Longrightarrow> fallback_pass (pre @ rest) = fallback_pass rest"
proof (induction pre)
  case Nil
  show ?case by simp
next
  case (Cons d pre)
  then have pre: "list_all ext_matches_filename pre" and d: "ext_matches_filename d"
    by simp_all
  from d show ?case using Cons.IH [OF pre]
    by (auto simp: ext_matches_filename_def split: sum.splits pyval.splits)
qed

lemma fallback_pass_hit:
  assumes "map_of kv ''ext'' = Some ext"
      and "map_of kv ''_filename'' = Some (PStr s)"
      and "ext \<noteq> PStr (rsplit_last CHR ''.'' s)"
      and "map_of kv ''filepath'' = Some p"
  shows "fallback_pass (PDict kv # post) =
           Inr (PDict (AList.update ''filepath'' (replaced_filepath kv (PStr s)) kv))"
  using assms by (simp add: replaced_filepath_def split: option.splits)

lemma fallback_pass_select:
  assumes "list_all ext_matches_filename pre"
      and "map_of kv ''ext'' = Some ext"
      and "map_of kv ''_filename'' = Some (PStr s)"
      and "ext \<noteq> PStr (rsplit_last CHR ''.'' s)"
      and "map_of kv ''filepath'' = Some p"
  shows "fallback_pass (pre @ PDict kv # post) =
           Inr (PDict (AList.update ''filepath'' (replaced_filepath kv (PStr s)) kv))"
  using fallback_pass_skip [OF assms(1)] fallback_pass_hit [OF assms(2-5)] by simp

section \<open>Facts about the document\<close>

lemma store_requested_downloads_same:
  "getitem holder ''requested_downloads'' = Inr (PList rds) \<Longrightarrow>
   store_requested_downloads holder rd rds = holder"
  by (auto simp: store_requested_downloads_def getitem_Inr AList.update_triv split: pyval.splits)

lemma store_first_entry_same:
  "getitem meta ''entries'' = Inr entries \<Longrightarrow> getitem0 entries = Inr entry \<Longrightarrow>
   store_first_entry meta entries entry = meta"
  by (auto simp: store_first_entry_def getitem_Inr AList.update_triv
           split: pyval.splits list.splits)

lemma with_downloads_same:
  "consulted_downloads meta = Some rds \<Longrightarrow> with_downloads meta rds = meta"
  by (auto simp: consulted_downloads_def with_downloads_def store_requested_downloads_same
                 store_first_entry_same
           split: sum.splits pyval.splits if_splits)

lemma consulted_with_downloads:
  assumes "consulted_downloads meta = Some rds"
  shows "consulted_downloads (with_downloads meta rds') = Some rds'"
proof -
  obtain d ty where meta: "meta = PDict d" and ty: "map_of d ''_type'' = Some ty"
    using assms by (cases meta) (auto simp: consulted_downloads_def split: option.splits)
  show ?thesis
  proof (cases "ty = PStr PLAYLIST_TYPE")
    case True
    with assms meta ty obtain entries entry where e:
      "map_of d ''entries'' = Some entries" "getitem0 entries = Inr entry"
      "getitem entry ''requested_downloads'' = Inr (PList rds)"
      by (auto simp: consulted_downloads_def split: sum.splits pyval.splits option.splits)
    from e(3) obtain ed where ed: "entry = PDict ed"
      by (cases entry) auto
    with e(2) obtain es where "entries = PList (PDict ed # es)"
      by (cases entries) (auto split: list.splits)
    with e ed meta ty True show ?thesis
      by (simp add: consulted_downloads_def with_downloads_def store_first_entry_def
            store_requested_downloads_def update_conv')
  next
    case False
    with assms meta ty show ?thesis
      by (simp add: consulted_downloads_def with_downloads_def
            store_requested_downloads_def update_conv')
  qed
qed

lemma requested_video_of_list:
  "getitem holder ''requested_downloads'' = Inr (PList rds) \<Longrightarrow>
   requested_video_of af holder =
     (case get_requested_video af rds of
        Inl e \<Rightarrow> Inl e
      | Inr (rds', found) \<Rightarrow> Inr (store_requested_downloads holder (PList []) rds', found))"
  by (auto simp: requested_video_of_def store_requested_downloads_def split: sum.splits pyval.splits)

text \<open>
  \<^verbatim>\<open>_get_video_filepath\<close> and \<^verbatim>\<open>_get_video_context\<close> in terms of the list consulted: the
  document afterwards is the document with the list as the call left it.
\<close>

lemma get_video_filepath_consulted:
  assumes "consulted_downloads meta = Some rds"
  shows "get_video_filepath af meta =
     (case get_requested_video af rds of
        Inl e \<Rightarrow> (meta, Inl e)
      | Inr (rds', found) \<Rightarrow> (with_downloads meta rds', filepath_lookup found))"
proof -
  obtain ty where ty: "getitem meta ''_type'' = Inr ty"
    using assms by (auto simp: consulted_downloads_def split: sum.splits)
  show ?thesis
  proof (cases "ty = PStr PLAYLIST_TYPE")
    case True
    with assms ty obtain entries entry where
      "getitem meta ''entries'' = Inr entries" "getitem0 entries = Inr entry"
      "getitem entry ''requested_downloads'' = Inr (PList rds)"
      by (auto simp: consulted_downloads_def split: sum.splits pyval.splits)
    with ty True show ?thesis
      by (simp add: get_video_filepath_def entry_requested_video_def requested_video_of_list
            with_downloads_def split: sum.splits prod.splits)
  next
    case False
    with assms ty have "getitem meta ''requested_downloads'' = Inr (PList rds)"
      by (auto simp: consulted_downloads_def split: sum.splits pyval.splits)
    with ty False show ?thesis
      by (simp add: get_video_filepath_def requested_video_of_list with_downloads_def
            split: sum.splits prod.splits)
  qed
qed

lemma get_video_context_consulted:
  assumes "consulted_downloads meta = Some rds"
  shows "fst (get_video_context af meta) =
     (case get_requested_video af rds of
        Inl e \<Rightarrow> meta
      | Inr (rds', found) \<Rightarrow> with_downloads meta rds')"
proof -
  obtain ty where ty: "getitem meta ''_type'' = Inr ty"
    using assms by (auto simp: consulted_downloads_def split: sum.splits)
  show ?thesis
  proof (cases "ty = PStr PLAYLIST_TYPE")
    case True
    with assms ty obtain entries entry where e:
      "getitem meta ''entries'' = Inr entries" "getitem0 entries = Inr entry"
      "getitem entry ''requested_downloads'' = Inr (PList rds)"
      by (auto simp: consulted_downloads_def split: sum.splits pyval.splits)
    from e(2,3) obtain es where "entries = PList (entry # es)"
      by (cases entries) (auto split: list.splits)
    with e ty True show ?thesis
      by (simp add: get_video_context_def entry_requested_video_def requested_video_of_list
            with_downloads_def split: sum.splits prod.splits)
  next
    case False
    with assms ty have "getitem meta ''requested_downloads'' = Inr (PList rds)"
      by (auto simp: consulted_downloads_def split: sum.splits pyval.splits)
    with ty False show ?thesis
      by (simp add: get_video_context_def requested_video_of_list with_downloads_def
            split: sum.splits prod.splits)
  qed
qed

lemma get_video_filename_fst:
  "fst (get_video_filename af meta) = fst (get_video_filepath af meta)"
  by (simp add: get_video_filename_def split: prod.splits sum.splits)

text \<open>
  Giving an entry a \<^verbatim>\<open>_type\<close> changes neither the descriptor found in it nor what is
  read from it; the entry afterwards is the same but for that key.
\<close>

lemma getitem_not_dict: "(\<And>d. v \<noteq> PDict d) \<Longrightarrow> getitem v k = Inl TypeError"
  by (cases v) auto

lemma single_item_of_same:
  "getitem entry ''_type'' = Inr ty \<Longrightarrow> single_item_of ty entry = entry"
  by (auto simp: getitem_Inr single_item_of_def AList.update_triv)

lemma requested_video_of_single_item:
  "requested_video_of af (single_item_of ty (PDict ed)) =
     (case requested_video_of af (PDict ed) of
        Inl e \<Rightarrow> Inl e
      | Inr (e', found) \<Rightarrow> Inr (single_item_of ty e', found))"
proof (cases "map_of ed ''requested_downloads''")
  case None
  then show ?thesis
    by (simp add: requested_video_of_def single_item_of_def update_conv')
next
  case (Some rd)
  have st: "store_requested_downloads (PDict (AList.update ''_type'' ty ed)) rd items =
            single_item_of ty (store_requested_downloads (PDict ed) rd items)" for items
    using Some
    by (cases rd)
       (simp_all add: store_requested_downloads_def single_item_of_def
          update_commute [of "''_type''" "''requested_downloads''"])
  from Some show ?thesis
    by (simp add: requested_video_of_def single_item_of_def [of ty "PDict ed"] update_conv' st
          split: sum.splits prod.splits)
qed

lemma requested_video_of_single_item_any:
  "requested_video_of af (single_item_of ty entry) =
     (case requested_video_of af entry of
        Inl e \<Rightarrow> Inl e
      | Inr (e', found) \<Rightarrow> Inr (single_item_of ty e', found))"
proof (cases "\<exists>ed. entry = PDict ed")
  case True
  then show ?thesis using requested_video_of_single_item by auto
next
  case False
  then have nd: "\<And>ed. entry \<noteq> PDict ed" by simp
  have "single_item_of ty entry = entry"
    using False by (cases entry) (auto simp: single_item_of_def)
  then show ?thesis
    by (simp add: requested_video_of_def getitem_not_dict [OF nd])
qed

lemma single_item_of_type:
  "getitem (single_item_of ty entry) ''_type'' = Inr ty \<or>
   (getitem (single_item_of ty entry) ''_type'' = Inl TypeError \<and>
    requested_video_of af entry = Inl TypeError)"
  by (cases entry) (simp_all add: single_item_of_def update_conv' requested_video_of_def)

lemma video_context_of_single_item:
  "video_context_of (single_item_of ty e) found = video_context_of e found"
  by (cases e) (simp_all add: video_context_of_def single_item_of_def update_conv')

section \<open>Facts about building the results\<close>

lemma create_audio_dto_meta:
  "fst (fst (create_audio_dto cfg meta fs tmp dst c)) = meta"
  by (simp add: create_audio_dto_def split: option.splits sum.splits prod.splits)

lemma find_downloaded_file_Some:
  "find_downloaded_file fs ext = Some n \<Longrightarrow> glob_match ext n \<and> n \<in> fst ` set (scratch fs)"
  by (auto simp: find_downloaded_file_def find_Some_iff)

lemma create_video_dto_original_filename:
  assumes "get_video_filename (FINAL_AUDIO_FORMAT cfg) meta = (m1, Inr name)"
      and "create_video_dto cfg meta fs tmp dst c = (st, Inr vid)"
  shows "video_original_filename vid = name"
  using assms
  by (auto simp: create_video_dto_def Let_def split: prod.splits sum.splits)

text \<open>When neither loop finds a descriptor the video is not built, and nothing is touched.\<close>

lemma create_video_dto_unmatched:
  assumes "consulted_downloads meta = Some rds"
      and "get_requested_video (FINAL_AUDIO_FORMAT cfg) rds = Inr (rds', PNone)"
  shows "create_video_dto cfg meta fs tmp dst c = ((meta, fs), Inl TypeError)"
proof -
  have "rds' = rds" using assms(2) by (rule get_requested_video_none)
  with assms have "get_video_filepath (FINAL_AUDIO_FORMAT cfg) meta = (meta, Inl TypeError)"
    by (simp add: get_video_filepath_consulted with_downloads_same filepath_lookup_def)
  then show ?thesis
    by (simp add: create_video_dto_def get_video_filename_def)
qed

text \<open>When the first loop finds nothing, building the video leaves the document as it was.\<close>

lemma create_video_dto_frame:
  assumes "consulted_downloads meta = Some rds"
      and "primary_pass (FINAL_AUDIO_FORMAT cfg) rds = Inr None"
  shows "fst (fst (create_video_dto cfg meta fs tmp dst c)) = meta"
proof -
  let ?af = "FINAL_AUDIO_FORMAT cfg"
  have same: "rds' = rds" if "get_requested_video ?af rds = Inr (rds', found)" for rds' found
    using that assms(2) by (auto simp: get_requested_video_def split: sum.splits)
  have p: "fst (get_video_filepath ?af meta) = meta"
    using same by (auto simp: get_video_filepath_consulted [OF assms(1)]
                     with_downloads_same [OF assms(1)] split: sum.splits)
  have c: "fst (get_video_context ?af meta) = meta"
    using same by (auto simp: get_video_context_consulted [OF assms(1)]
                     with_downloads_same [OF assms(1)] split: sum.splits)
  obtain r1 where r1: "get_video_filename ?af meta = (meta, r1)"
    using p get_video_filename_fst [of ?af meta] by (cases "get_video_filename ?af meta") simp
  obtain r2 where r2: "get_video_context ?af meta = (meta, r2)"
    using c by (cases "get_video_context ?af meta") simp
  show ?thesis
    by (simp add: create_video_dto_def r1 r2 Let_def split: sum.splits prod.splits)
qed

text \<open>A playlist without entries: the path lookup subscripts the empty list.\<close>

lemma empty_playlist_video:
  assumes "getitem meta ''_type'' = Inr (PStr PLAYLIST_TYPE)"
      and "getitem meta ''entries'' = Inr (PList [])"
  shows "create_video_dto cfg meta fs tmp dst c = ((meta, fs), Inl IndexError)"
  using assms
  by (simp add: create_video_dto_def get_video_filename_def get_video_filepath_def
        entry_requested_video_def)

section \<open>The values of the duration coercion\<close>

text \<open>
  C3, as amended. \<^verbatim>\<open>_to_float\<close> maps \<^verbatim>\<open>"12.5"\<close> to 12.5, \<open>None\<close> to \<open>None\<close> and \<open>7\<close> to 7.0.
  On \<^verbatim>\<open>"bad"\<close> the builtin raises \<open>ValueError\<close>; the handler catches \<open>TypeError\<close> only, so
  the \<open>ValueError\<close> leaves \<^verbatim>\<open>_to_float\<close>.
\<close>

theorem to_float_values:
  "to_float (PStr ''12.5'') = Inr (PFloat 12.5) \<and>
   to_float PNone = Inr PNone \<and>
   to_float (PInt 7) = Inr (PFloat 7) \<and>
   to_float (PStr ''bad'') =
     Inl (ValueError (''could not convert string to float: '' @ [CHR 0x27] @ ''bad'' @ [CHR 0x27]))"
  by code_simp

text \<open>
  C3 as stated fails at \<^verbatim>\<open>"bad"\<close>: the value is not passed through, an exception is raised.
\<close>

theorem to_float_counterexample:
  "to_float (PStr ''bad'') \<noteq> Inr (PStr ''bad'') \<and>
   to_float (PStr ''bad'') =
     Inl (ValueError (''could not convert string to float: '' @ [CHR 0x27] @ ''bad'' @ [CHR 0x27]))"
  by code_simp

section \<open>The primary pass and the file name of the video\<close>

text \<open>
  C1. Let a single-item document (its \<^verbatim>\<open>_type\<close> is not \<^verbatim>\<open>playlist\<close>) have the descriptors
  \<open>pre @ PDict kv # post\<close>, where those of \<open>pre\<close> have the audio extension and \<open>kv\<close> is the
  first that has not, carries an internal filename, and has a string as its normalized
  path (\<^verbatim>\<open>filepath\<close>, else \<^verbatim>\<open>filename\<close>, else the internal filename). Then
  \<^verbatim>\<open>_get_requested_video\<close> selects \<open>kv\<close> with \<^verbatim>\<open>filepath\<close> set to that path,
  \<^verbatim>\<open>_get_video_filename\<close> returns what follows the last \<^verbatim>\<open>/\<close> of the path, and every
  \<open>Video\<close> that resolving \<open>VIDEO\<close> returns has it as its original filename.
\<close>

theorem primary_video_filename:
  assumes "getitem meta ''_type'' = Inr ty"
      and "ty \<noteq> PStr PLAYLIST_TYPE"
      and "getitem meta ''requested_downloads'' = Inr (PList (pre @ PDict kv # post))"
      and "list_all (has_audio_ext (FINAL_AUDIO_FORMAT cfg)) pre"
      and "\<not> has_audio_ext (FINAL_AUDIO_FORMAT cfg) (PDict kv)"
      and "map_of kv ''_filename'' = Some internal"
      and "normalized_filepath kv internal = PStr path"
  shows "get_requested_video (FINAL_AUDIO_FORMAT cfg) (pre @ PDict kv # post) =
           Inr (pre @ PDict (AList.update ''filepath'' (PStr path) kv) # post,
                PDict (AList.update ''filepath'' (PStr path) kv)) \<and>
         snd (get_video_filename (FINAL_AUDIO_FORMAT cfg) meta) =
           Inr (rsplit_last CHR ''/'' path) \<and>
         (\<forall>st r. create_media_dtos cfg VIDEO meta fs tmp dst c = (st, Inr r) \<longrightarrow>
            (\<exists>vid. r = (None, Some vid) \<and>
                   video_original_filename vid = rsplit_last CHR ''/'' path)) \<and>
         CHR ''/'' \<notin> set (rsplit_last CHR ''/'' path) \<and>
         (\<exists>p. path = p @ rsplit_last CHR ''/'' path \<and> (p = [] \<or> last p = CHR ''/''))"
proof -
  let ?af = "FINAL_AUDIO_FORMAT cfg"
  let ?d = "PDict (AList.update ''filepath'' (PStr path) kv)"
  have sel: "get_requested_video ?af (pre @ PDict kv # post) = Inr (pre @ ?d # post, ?d)"
    using primary_pass_select [OF assms(4,5,6), of post] assms(7)
    by (simp add: get_requested_video_def)
  have cons: "consulted_downloads meta = Some (pre @ PDict kv # post)"
    using assms(1,2,3) by (simp add: consulted_downloads_def)
  have look: "filepath_lookup ?d = Inr (PStr path)"
    by (simp add: filepath_lookup_def update_conv')
  have name: "get_video_filename ?af meta =
                (with_downloads meta (pre @ ?d # post), Inr (rsplit_last CHR ''/'' path))"
    by (simp add: get_video_filename_def get_video_filepath_consulted [OF cons] sel look)
  have "\<exists>vid. r = (None, Some vid) \<and> video_original_filename vid = rsplit_last CHR ''/'' path"
    if "create_media_dtos cfg VIDEO meta fs tmp dst c = (st, Inr r)" for st r
  proof -
    from that obtain st' vid where
      v: "create_video_dto cfg meta fs tmp dst c = (st', Inr vid)" and r: "r = (None, Some vid)"
      by (auto simp: create_media_dtos_def create_dto_def split: prod.splits sum.splits)
    from create_video_dto_original_filename [OF name v] r show ?thesis by simp
  qed
  with sel name rsplit_last_segment [of "CHR ''/''" path] show ?thesis by simp
qed

text \<open>
  The example document resolved for \<open>VIDEO\<close>: the video descriptor has no \<^verbatim>\<open>filepath\<close>, its
  \<^verbatim>\<open>filename\<close> is \<^verbatim>\<open>/tmp/s/clip.mp4\<close>, and the file is moved with its thumbnail.
\<close>

lemma example_video_run:
  "create_media_dtos example_config VIDEO example_meta example_fs ''/tmp/s'' ''/dl/abcd'' None =
     ((with_downloads example_meta
         [example_audio,
          PDict (AList.update ''filepath'' (PStr ''/tmp/s/clip.mp4'') example_video_kv)],
       \<lparr>scratch = [(''clip.m4a'', 10)],
        staging = Some [(''clip.mp4'', 100), (''clip.jpg'', 3)],
        trace = [Mkdir, MoveToPath ''clip.mp4'' ''clip.mp4'', MoveIntoDir ''clip.jpg'']\<rparr>),
      Inr (None,
          Some \<lparr>video_title = PStr ''Clip'', video_original_filename = ''clip.mp4'',
                video_custom_filename = None, video_duration = PFloat 7,
                video_width = PInt 640, video_height = PInt 360,
                video_directory_path = ''/dl/abcd'', video_file_size = 100,
                video_thumb_path = Some ''/dl/abcd/clip.jpg'',
                video_thumb_name = Some ''clip.jpg''\<rparr>))"
  by code_simp

text \<open>C1 at the example document: the resolution succeeds, with \<^verbatim>\<open>clip.mp4\<close> as the name.\<close>

theorem primary_video_filename_witness:
  "\<exists>st vid.
     create_media_dtos example_config VIDEO example_meta example_fs ''/tmp/s'' ''/dl/abcd'' None =
       (st, Inr (None, Some vid)) \<and>
     video_original_filename vid = ''clip.mp4''"
proof -
  have h1: "getitem example_meta ''_type'' = Inr (PStr ''video'')"
    by (simp add: example_meta_def)
  have h2: "PStr ''video'' \<noteq> PStr PLAYLIST_TYPE"
    by (simp add: PLAYLIST_TYPE_def)
  have h3: "getitem example_meta ''requested_downloads'' =
              Inr (PList ([example_audio] @ PDict example_video_kv # []))"
    by (simp add: example_meta_def)
  have h4: "list_all (has_audio_ext (FINAL_AUDIO_FORMAT example_config)) [example_audio]"
    by (simp add: has_audio_ext_def example_config_def example_audio_def)
  have h5: "\<not> has_audio_ext (FINAL_AUDIO_FORMAT example_config) (PDict example_video_kv)"
    by (simp add: has_audio_ext_def example_config_def example_video_kv_def)
  have h6: "map_of example_video_kv ''_filename'' = Some (PStr ''clip.mp4'')"
    by (simp add: example_video_kv_def)
  have h7: "normalized_filepath example_video_kv (PStr ''clip.mp4'') = PStr ''/tmp/s/clip.mp4''"
    by (simp add: normalized_filepath_def example_video_kv_def)
  have seg: "rsplit_last CHR ''/'' ''/tmp/s/clip.mp4'' = ''clip.mp4''"
    by (simp add: rsplit_last_def)
  from primary_video_filename [OF h1 h2 h3 h4 h5 h6 h7,
         of example_fs "''/tmp/s''" "''/dl/abcd''" None]
  have "\<forall>st r. create_media_dtos example_config VIDEO example_meta example_fs
                  ''/tmp/s'' ''/dl/abcd'' None = (st, Inr r) \<longrightarrow>
            (\<exists>vid. r = (None, Some vid) \<and>
                   video_original_filename vid = rsplit_last CHR ''/'' ''/tmp/s/clip.mp4'')"
    by blast
  with example_video_run seg show ?thesis by auto
qed

section \<open>A playlist without entries\<close>

text \<open>
  C2, as amended. For a playlist-shaped document whose \<^verbatim>\<open>entries\<close> is the empty list,
  whatever its other fields: \<^verbatim>\<open>_get_video_context\<close> raises the \<open>ValueError\<close> that there
  are no entries to process, and resolving \<open>VIDEO\<close> or \<open>AUDIO_VIDEO\<close> fails, the document
  untouched and the staging directory removed.
\<close>

theorem empty_playlist:
  assumes "getitem meta ''_type'' = Inr (PStr PLAYLIST_TYPE)"
      and "getitem meta ''entries'' = Inr (PList [])"
      and "media_type = VIDEO \<or> media_type = AUDIO_VIDEO"
  shows "get_video_context af meta =
           (meta, Inl (ValueError ''Item said to be downloaded but no entries to process.'')) \<and>
         (\<exists>fs' e. create_media_dtos cfg media_type meta fs tmp dst c = ((meta, fs'), Inl e) \<and>
                   staging fs' = None)"
proof -
  have ctx: "get_video_context af meta =
           (meta, Inl (ValueError ''Item said to be downloaded but no entries to process.''))"
    using assms(1,2) by (simp add: get_video_context_def)
  have v: "create_video_dto cfg m f tmp dst c = ((m, f), Inl IndexError)" if "m = meta" for m f
    using that empty_playlist_video [OF assms(1,2)] by simp
  have "\<exists>fs' e. create_media_dtos cfg media_type meta fs tmp dst c = ((meta, fs'), Inl e) \<and>
                   staging fs' = None"
  proof (cases "media_type = VIDEO")
    case True
    then show ?thesis
      by (simp add: create_media_dtos_def create_dto_def v remove_dir_def)
  next
    case False
    with assms(3) have av: "media_type = AUDIO_VIDEO" by simp
    obtain fs1 r where a: "create_audio_dto cfg meta fs tmp dst c = ((meta, fs1), r)"
      using create_audio_dto_meta [of cfg meta fs tmp dst c]
      by (cases "create_audio_dto cfg meta fs tmp dst c") auto
    show ?thesis
      by (cases r) (simp_all add: av create_media_dtos_def create_dto_def a v remove_dir_def)
  qed
  with ctx show ?thesis by simp
qed

text \<open>C2, as amended, at the example playlist without entries, resolved for \<open>AUDIO_VIDEO\<close>.\<close>

theorem empty_playlist_witness:
  "get_video_context ''m4a'' example_empty_playlist =
     (example_empty_playlist,
      Inl (ValueError ''Item said to be downloaded but no entries to process.'')) \<and>
   (\<exists>fs' e. create_media_dtos example_config AUDIO_VIDEO example_empty_playlist example_fs
               ''/tmp/s'' ''/dl/abcd'' None = ((example_empty_playlist, fs'), Inl e) \<and>
             staging fs' = None)"
proof -
  have h1: "getitem example_empty_playlist ''_type'' = Inr (PStr PLAYLIST_TYPE)"
    by (simp add: example_empty_playlist_def PLAYLIST_TYPE_def)
  have h2: "getitem example_empty_playlist ''entries'' = Inr (PList [])"
    by (simp add: example_empty_playlist_def)
  have h3: "AUDIO_VIDEO = VIDEO \<or> AUDIO_VIDEO = AUDIO_VIDEO" by simp
  from empty_playlist [OF h1 h2 h3] show ?thesis .
qed

text \<open>
  C2 as stated fails at the example playlist without entries: resolving \<open>AUDIO\<close> succeeds,
  and resolving \<open>VIDEO\<close> raises \<open>IndexError\<close>, since \<^verbatim>\<open>_get_video_filepath\<close> subscripts the
  entries before \<^verbatim>\<open>_get_video_context\<close> is reached.
\<close>

theorem empty_playlist_counterexample:
  "snd (create_media_dtos example_config AUDIO example_empty_playlist example_fs
          ''/tmp/s'' ''/dl/abcd'' None) =
     Inr (Some \<lparr>audio_title = PStr ''List'', audio_original_filename = ''clip.m4a'',
                audio_duration = PNone, audio_directory_path = ''/dl/abcd'',
                audio_file_size = 10\<rparr>, None) \<and>
   snd (create_media_dtos example_config VIDEO example_empty_playlist example_fs
          ''/tmp/s'' ''/dl/abcd'' None) = Inl IndexError"
  by code_simp

section \<open>Rollback of the staging directory\<close>

text \<open>
  C4. When, resolving \<open>AUDIO_VIDEO\<close>, the audio has been built (its file is in the staging
  directory) and building the video raises \<open>e\<close>, the resolution raises that same \<open>e\<close>, after
  \<^verbatim>\<open>remove_dir\<close> has deleted the staging directory. The audio is built first, so this is
  the one order in which an asset can fail after the other was relocated.
\<close>

theorem audio_video_rollback:
  assumes "create_audio_dto cfg meta fs tmp dst c = ((meta1, fs1), Inr a)"
      and "create_video_dto cfg meta1 fs1 tmp dst c = ((meta2, fs2), Inl e)"
  shows "create_media_dtos cfg AUDIO_VIDEO meta fs tmp dst c =
           ((meta2, fs2\<lparr>staging := None, trace := trace fs2 @ [RemoveDir]\<rparr>), Inl e) \<and>
         file_size fs1 (audio_original_filename a) = Inr (audio_file_size a)"
proof -
  have "create_media_dtos cfg AUDIO_VIDEO meta fs tmp dst c =
           ((meta2, fs2\<lparr>staging := None, trace := trace fs2 @ [RemoveDir]\<rparr>), Inl e)"
    by (simp add: create_media_dtos_def create_dto_def assms remove_dir_def)
  moreover have "file_size fs1 (audio_original_filename a) = Inr (audio_file_size a)"
    using assms(1)
    by (auto simp: create_audio_dto_def split: option.splits sum.splits prod.splits)
  ultimately show ?thesis by simp
qed

text \<open>
  C4 at an example: the scratch directory holds the audio file only, so the audio is moved
  and the move of the video raises \<open>FileNotFoundError\<close>.
\<close>

theorem audio_video_rollback_witness:
  "create_media_dtos example_config AUDIO_VIDEO example_meta_with_path example_fs_audio_only
     ''/tmp/s'' ''/dl/abcd'' None =
     ((example_meta_with_path,
       \<lparr>scratch = [], staging = None,
        trace = [Mkdir, MoveIntoDir ''clip.m4a'', MoveToPath ''clip.mp4'' ''clip.mp4'',
                 RemoveDir]\<rparr>),
      Inl FileNotFoundError) \<and>
   file_size example_fs_audio_moved ''clip.m4a'' = Inr 10"
proof -
  have h1: "create_audio_dto example_config example_meta_with_path example_fs_audio_only
              ''/tmp/s'' ''/dl/abcd'' None =
            ((example_meta_with_path, example_fs_audio_moved), Inr example_audio_dto)"
    by code_simp
  have h2: "create_video_dto example_config example_meta_with_path example_fs_audio_moved
              ''/tmp/s'' ''/dl/abcd'' None =
            ((example_meta_with_path,
              example_fs_audio_moved\<lparr>trace := [Mkdir, MoveIntoDir ''clip.m4a'',
                                              MoveToPath ''clip.mp4'' ''clip.mp4'']\<rparr>),
             Inl FileNotFoundError)"
    by code_simp
  from audio_video_rollback [OF h1 h2] show ?thesis
    by (simp add: example_fs_audio_moved_def example_audio_dto_def)
qed

section \<open>No descriptor found\<close>

text \<open>
  C5, as amended. Let neither loop of \<^verbatim>\<open>_get_requested_video\<close> yield a descriptor for the
  list the document is resolved from, the document being the one \<^verbatim>\<open>sanitize_info\<close> has
  left. Then resolving \<open>VIDEO\<close> fails with some error, the staging directory removed, no
  file moved and the document as resolution found it; and \<^verbatim>\<open>_download\<close> (on a non-empty
  document and scratch directory, the staging directory not yet there) has created the
  staging directory before the resolution starts and fails with that error, the
  directory removed again.
\<close>

theorem unmatched_video:
  assumes "py_truthy meta"
      and "consulted_downloads (sanitize_info meta) = Some rds"
      and "get_requested_video (FINAL_AUDIO_FORMAT cfg) rds = Inr (rds', PNone)"
      and "scratch fs \<noteq> []"
      and "staging fs = None"
  shows "\<exists>e.
           (\<forall>fs0. create_media_dtos cfg VIDEO (sanitize_info meta) fs0 tmp dst c =
                    ((sanitize_info meta,
                      fs0\<lparr>staging := None, trace := trace fs0 @ [RemoveDir]\<rparr>), Inl e)) \<and>
           download_impl cfg sanitize_info VIDEO meta fs tmp dst c =
             ((sanitize_info meta,
               fs\<lparr>staging := None, trace := trace fs @ [Mkdir, RemoveDir]\<rparr>), Inl e)"
proof -
  have r: "create_media_dtos cfg VIDEO (sanitize_info meta) fs0 tmp dst c =
             ((sanitize_info meta,
               fs0\<lparr>staging := None, trace := trace fs0 @ [RemoveDir]\<rparr>), Inl TypeError)"
    for fs0
    by (simp add: create_media_dtos_def create_dto_def
          create_video_dto_unmatched [OF assms(2,3)] remove_dir_def)
  have "download_impl cfg sanitize_info VIDEO meta fs tmp dst c =
          ((sanitize_info meta,
            fs\<lparr>staging := None, trace := trace fs @ [Mkdir, RemoveDir]\<rparr>), Inl TypeError)"
    using assms(1,4,5) by (simp add: download_impl_def mkdir_def r)
  with r show ?thesis by blast
qed

text \<open>
  C5, as amended, at a document whose only descriptor is the audio and which gets its
  \<^verbatim>\<open>_type\<close> from \<open>sanitize_info\<close>.
\<close>

theorem unmatched_video_witness:
  "\<exists>e.
     (\<forall>fs0. create_media_dtos example_config VIDEO example_sanitized_meta fs0
               ''/tmp/s'' ''/dl/abcd'' None =
              ((example_sanitized_meta,
                fs0\<lparr>staging := None, trace := trace fs0 @ [RemoveDir]\<rparr>), Inl e)) \<and>
     download_impl example_config example_sanitize_info VIDEO example_raw_meta example_fs_before
       ''/tmp/s'' ''/dl/abcd'' None =
       ((example_sanitized_meta,
         \<lparr>scratch = [(''clip.m4a'', 10)], staging = None, trace = [Mkdir, RemoveDir]\<rparr>),
        Inl e)"
proof -
  have s: "example_sanitize_info example_raw_meta = example_sanitized_meta"
    by code_simp
  have h1: "py_truthy example_raw_meta"
    by (simp add: example_raw_meta_def)
  have h2: "consulted_downloads (example_sanitize_info example_raw_meta) = Some [example_audio]"
    by code_simp
  have h3: "get_requested_video (FINAL_AUDIO_FORMAT example_config) [example_audio] =
              Inr ([example_audio], PNone)"
    by code_simp
  have h4: "scratch example_fs_before \<noteq> []"
    by (simp add: example_fs_before_def)
  have h5: "staging example_fs_before = None"
    by (simp add: example_fs_before_def)
  from unmatched_video [where meta = example_raw_meta and sanitize_info = example_sanitize_info
         and cfg = example_config and fs = example_fs_before and tmp = "''/tmp/s''"
         and dst = "''/dl/abcd''" and c = None, OF h1 h2 h3 h4 h5]
  show ?thesis by (simp add: s example_fs_before_def)
qed

text \<open>
  C5 as stated fails at that document: neither loop yields a descriptor, the error is the
  \<open>TypeError\<close> of subscripting \<open>None\<close> and not a \<open>ValueError\<close>, and \<^verbatim>\<open>mkdir\<close> has created
  the staging directory.
\<close>

theorem unmatched_video_counterexample:
  "get_requested_video ''m4a'' [example_audio] = Inr ([example_audio], PNone) \<and>
   download_impl example_config example_sanitize_info VIDEO example_raw_meta example_fs_before
     ''/tmp/s'' ''/dl/abcd'' None =
     ((example_sanitized_meta,
       \<lparr>scratch = [(''clip.m4a'', 10)], staging = None, trace = [Mkdir, RemoveDir]\<rparr>),
      Inl TypeError) \<and>
   fst (mkdir example_fs_before) =
     \<lparr>scratch = [(''clip.m4a'', 10)], staging = Some [], trace = [Mkdir]\<rparr>"
  by code_simp

section \<open>The fallback pass\<close>

text \<open>
  C6, as amended. Let every descriptor of the list have the audio extension, let those
  of \<open>pre\<close> have the extension of their internal filename, and let \<open>kv\<close> be the first whose
  \<^verbatim>\<open>ext\<close> differs from the extension of its internal filename \<open>s\<close>, and let it carry a
  \<^verbatim>\<open>filepath\<close>. Then \<^verbatim>\<open>_get_requested_video\<close> returns a copy of \<open>kv\<close> in which only
  \<^verbatim>\<open>filepath\<close> is replaced, the list is as it was, and the document is as it was after the
  video has been built or has failed to build.
\<close>

theorem fallback_pass_copy:
  assumes "list_all (has_audio_ext (FINAL_AUDIO_FORMAT cfg)) (pre @ PDict kv # post)"
      and "list_all ext_matches_filename pre"
      and "map_of kv ''ext'' = Some ext"
      and "map_of kv ''_filename'' = Some (PStr s)"
      and "ext \<noteq> PStr (rsplit_last CHR ''.'' s)"
      and "map_of kv ''filepath'' = Some p"
      and "consulted_downloads meta = Some (pre @ PDict kv # post)"
  shows "get_requested_video (FINAL_AUDIO_FORMAT cfg) (pre @ PDict kv # post) =
           Inr (pre @ PDict kv # post,
                PDict (AList.update ''filepath'' (replaced_filepath kv (PStr s)) kv)) \<and>
         fst (fst (create_video_dto cfg meta fs tmp dst c)) = meta"
  using primary_pass_none [OF assms(1)] fallback_pass_select [OF assms(2-6), of post]
    create_video_dto_frame [OF assms(7), of cfg fs tmp dst c]
  by (simp add: get_requested_video_def)

text \<open>C6, as amended, at the example of a video kept beside the audio made of it.\<close>

theorem fallback_pass_copy_witness:
  "get_requested_video ''m4a'' [example_audio, PDict example_kept_kv] =
     Inr ([example_audio, PDict example_kept_kv],
          PDict [(''ext'', PStr ''m4a''), (''_filename'', PStr ''/tmp/s/clip.mp4''),
                 (''filepath'', PStr ''/tmp/s/clip.mp4'')]) \<and>
   fst (fst (create_video_dto example_config example_kept_meta example_fs_video_only
               ''/tmp/s'' ''/dl/abcd'' None)) = example_kept_meta"
proof -
  have h1: "list_all (has_audio_ext (FINAL_AUDIO_FORMAT example_config))
              ([example_audio] @ PDict example_kept_kv # [])"
    by code_simp
  have h2: "list_all ext_matches_filename [example_audio]"
    by code_simp
  have h3: "map_of example_kept_kv ''ext'' = Some (PStr ''m4a'')"
    by (simp add: example_kept_kv_def)
  have h4: "map_of example_kept_kv ''_filename'' = Some (PStr ''/tmp/s/clip.mp4'')"
    by (simp add: example_kept_kv_def)
  have h5: "PStr ''m4a'' \<noteq> PStr (rsplit_last CHR ''.'' ''/tmp/s/clip.mp4'')"
    by (simp add: rsplit_last_def)
  have h6: "map_of example_kept_kv ''filepath'' = Some (PStr ''/tmp/s/clip.m4a'')"
    by (simp add: example_kept_kv_def)
  have h7: "consulted_downloads example_kept_meta =
              Some ([example_audio] @ PDict example_kept_kv # [])"
    by code_simp
  have r: "AList.update ''filepath'' (replaced_filepath example_kept_kv (PStr ''/tmp/s/clip.mp4''))
             example_kept_kv =
           [(''ext'', PStr ''m4a''), (''_filename'', PStr ''/tmp/s/clip.mp4''),
            (''filepath'', PStr ''/tmp/s/clip.mp4'')]"
    by (simp add: example_kept_kv_def replaced_filepath_def)
  from fallback_pass_copy [OF h1 h2 h3 h4 h5 h6 h7,
         of example_fs_video_only "''/tmp/s''" "''/dl/abcd''" None] r
  show ?thesis by (simp add: example_config_def)
qed

text \<open>
  C6 as stated fails when the descriptor has no \<^verbatim>\<open>filepath\<close>: every extension is the audio
  extension, the second descriptor's differs from that of its internal filename, and the
  call raises \<open>KeyError\<close> where it evaluates the arguments of its log message.
\<close>

theorem fallback_pass_copy_counterexample:
  "list_all (has_audio_ext ''m4a'') [example_audio, example_kept_without_path] \<and>
   \<not> ext_matches_filename example_kept_without_path \<and>
   get_requested_video ''m4a'' [example_audio, example_kept_without_path] = Inl KeyError"
  by code_simp

text \<open>
  C7, as amended. The descriptor the second loop selects is returned with \<^verbatim>\<open>filepath\<close>
  set to its \<^verbatim>\<open>filename\<close> if it has one and to its internal filename otherwise. The
  \<^verbatim>\<open>filepath\<close> it carried is not kept.
\<close>

theorem fallback_pass_filepath:
  assumes "list_all (has_audio_ext af) (pre @ PDict kv # post)"
      and "list_all ext_matches_filename pre"
      and "map_of kv ''ext'' = Some ext"
      and "map_of kv ''_filename'' = Some (PStr s)"
      and "ext \<noteq> PStr (rsplit_last CHR ''.'' s)"
      and "map_of kv ''filepath'' = Some p"
  shows "\<exists>found. get_requested_video af (pre @ PDict kv # post) =
                   Inr (pre @ PDict kv # post, found) \<and>
                 getitem found ''filepath'' =
                   Inr (case map_of kv ''filename'' of Some f \<Rightarrow> f | None \<Rightarrow> PStr s)"
  using primary_pass_none [OF assms(1)] fallback_pass_select [OF assms(2-6), of post]
  by (simp add: get_requested_video_def replaced_filepath_def update_conv')

text \<open>C7, as amended, at the same example: the path returned is the internal filename.\<close>

theorem fallback_pass_filepath_witness:
  "\<exists>found. get_requested_video ''m4a'' [example_audio, PDict example_kept_kv] =
             Inr ([example_audio, PDict example_kept_kv], found) \<and>
           getitem found ''filepath'' = Inr (PStr ''/tmp/s/clip.mp4'')"
proof -
  have h1: "list_all (has_audio_ext ''m4a'') ([example_audio] @ PDict example_kept_kv # [])"
    by code_simp
  have h2: "list_all ext_matches_filename [example_audio]"
    by code_simp
  have h3: "map_of example_kept_kv ''ext'' = Some (PStr ''m4a'')"
    by (simp add: example_kept_kv_def)
  have h4: "map_of example_kept_kv ''_filename'' = Some (PStr ''/tmp/s/clip.mp4'')"
    by (simp add: example_kept_kv_def)
  have h5: "PStr ''m4a'' \<noteq> PStr (rsplit_last CHR ''.'' ''/tmp/s/clip.mp4'')"
    by (simp add: rsplit_last_def)
  have h6: "map_of example_kept_kv ''filepath'' = Some (PStr ''/tmp/s/clip.m4a'')"
    by (simp add: example_kept_kv_def)
  have n: "map_of example_kept_kv ''filename'' = None"
    by (simp add: example_kept_kv_def)
  from fallback_pass_filepath [OF h1 h2 h3 h4 h5 h6] n show ?thesis by simp
qed

text \<open>
  C7 as stated fails there: the descriptor carries the \<^verbatim>\<open>filepath\<close> \<^verbatim>\<open>/tmp/s/clip.m4a\<close>,
  and the copy returned has \<^verbatim>\<open>/tmp/s/clip.mp4\<close>.
\<close>

theorem fallback_pass_filepath_counterexample:
  "getitem (PDict example_kept_kv) ''filepath'' = Inr (PStr ''/tmp/s/clip.m4a'') \<and>
   (case get_requested_video ''m4a'' [example_audio, PDict example_kept_kv] of
      Inl e \<Rightarrow> Inl e
    | Inr (rds, found) \<Rightarrow> getitem found ''filepath'') = Inr (PStr ''/tmp/s/clip.mp4'')"
  by code_simp

section \<open>Building the audio\<close>

text \<open>
  C8, as amended. \<^verbatim>\<open>_find_downloaded_file\<close> finds no audio file exactly when no name of
  the scratch directory matches the audio extension. When it finds none,
  \<^verbatim>\<open>_create_audio_dto\<close> raises \<open>TypeError\<close> where it joins the scratch path with \<open>None\<close>:
  no move is attempted and the file system is as it was. Every \<open>Audio\<close> it returns has
  duration \<open>None\<close> and, as its original filename, the matching file that was found.
\<close>

theorem audio_resolution:
  "(find_downloaded_file fs (FINAL_AUDIO_FORMAT cfg) = None \<longleftrightarrow>
      \<not> list_ex (glob_match (FINAL_AUDIO_FORMAT cfg)) (map fst (scratch fs))) \<and>
   (find_downloaded_file fs (FINAL_AUDIO_FORMAT cfg) = None \<longrightarrow>
      create_audio_dto cfg meta fs tmp dst c = ((meta, fs), Inl TypeError)) \<and>
   (\<forall>st a. create_audio_dto cfg meta fs tmp dst c = (st, Inr a) \<longrightarrow>
      audio_duration a = PNone \<and>
      find_downloaded_file fs (FINAL_AUDIO_FORMAT cfg) = Some (audio_original_filename a) \<and>
      glob_match (FINAL_AUDIO_FORMAT cfg) (audio_original_filename a))"
proof -
  let ?af = "FINAL_AUDIO_FORMAT cfg"
  have 1: "find_downloaded_file fs ?af = None \<longleftrightarrow>
             \<not> list_ex (glob_match ?af) (map fst (scratch fs))"
    by (simp add: find_downloaded_file_def find_None_iff list_ex_iff)
  have 2: "create_audio_dto cfg meta fs tmp dst c = ((meta, fs), Inl TypeError)"
    if "find_downloaded_file fs ?af = None"
    using that by (simp add: create_audio_dto_def)
  have 3: "audio_duration a = PNone \<and>
           find_downloaded_file fs ?af = Some (audio_original_filename a) \<and>
           glob_match ?af (audio_original_filename a)"
    if "create_audio_dto cfg meta fs tmp dst c = (st, Inr a)" for st a
  proof -
    from that obtain n where n: "find_downloaded_file fs ?af = Some n"
      by (cases "find_downloaded_file fs ?af") (auto simp: create_audio_dto_def)
    with that have "audio_duration a = PNone" "audio_original_filename a = n"
      by (auto simp: create_audio_dto_def split: sum.splits prod.splits)
    with n find_downloaded_file_Some [OF n] show ?thesis by simp
  qed
  from 1 2 3 show ?thesis by blast
qed

text \<open>
  C8, as amended, at two scratch directories: one without an audio file, one with
  \<^verbatim>\<open>clip.m4a\<close>.
\<close>

theorem audio_resolution_witness:
  "create_audio_dto example_config example_meta example_fs_video_only ''/tmp/s'' ''/dl/abcd'' None =
     ((example_meta, example_fs_video_only), Inl TypeError) \<and>
   create_audio_dto example_config example_meta_with_path example_fs_audio_only
     ''/tmp/s'' ''/dl/abcd'' None =
     ((example_meta_with_path, example_fs_audio_moved), Inr example_audio_dto) \<and>
   audio_duration example_audio_dto = PNone \<and>
   find_downloaded_file example_fs_audio_only ''m4a'' = Some ''clip.m4a''"
proof -
  have h1: "find_downloaded_file example_fs_video_only (FINAL_AUDIO_FORMAT example_config) = None"
    by code_simp
  have h2: "create_audio_dto example_config example_meta_with_path example_fs_audio_only
              ''/tmp/s'' ''/dl/abcd'' None =
            ((example_meta_with_path, example_fs_audio_moved), Inr example_audio_dto)"
    by code_simp
  have a: "create_audio_dto example_config example_meta example_fs_video_only
             ''/tmp/s'' ''/dl/abcd'' None =
           ((example_meta, example_fs_video_only), Inl TypeError)"
    using audio_resolution [of example_fs_video_only example_config example_meta
            "''/tmp/s''" "''/dl/abcd''" None] h1 by blast
  have b: "audio_duration example_audio_dto = PNone \<and>
           find_downloaded_file example_fs_audio_only (FINAL_AUDIO_FORMAT example_config) =
             Some (audio_original_filename example_audio_dto)"
    using audio_resolution [of example_fs_audio_only example_config example_meta_with_path
            "''/tmp/s''" "''/dl/abcd''" None] h2 by blast
  from a b h2 show ?thesis
    by (simp add: example_config_def example_audio_dto_def)
qed

text \<open>
  C8 as stated fails at the scratch directory without an audio file: the error is a
  \<open>TypeError\<close>, not an error of the file system, and the trace of the file system is
  unchanged, so it is raised before the relocation step.
\<close>

theorem audio_resolution_counterexample:
  "find_downloaded_file example_fs_video_only ''m4a'' = None \<and>
   create_audio_dto example_config example_meta example_fs_video_only ''/tmp/s'' ''/dl/abcd'' None =
     ((example_meta, example_fs_video_only), Inl TypeError)"
  by code_simp

section \<open>A playlist with one entry\<close>

text \<open>
  C9. For every playlist-shaped document whose \<^verbatim>\<open>entries\<close> is a one-element list, the
  results of \<^verbatim>\<open>_get_video_filepath\<close>, \<^verbatim>\<open>_get_video_filename\<close> and \<^verbatim>\<open>_get_video_context\<close>,
  errors included, are those for the single-item document built from the entry (the
  entry under any \<^verbatim>\<open>_type\<close> other than \<^verbatim>\<open>playlist\<close>, so the entry itself when it has
  one), and the entry found in the playlist afterwards is, under that \<^verbatim>\<open>_type\<close>, the
  single-item document as the same call on it alone leaves it.
\<close>

theorem playlist_single_entry:
  assumes "getitem meta ''_type'' = Inr (PStr PLAYLIST_TYPE)"
      and "getitem meta ''entries'' = Inr (PList [entry])"
      and "ty \<noteq> PStr PLAYLIST_TYPE"
  shows "snd (get_video_filepath af meta) =
           snd (get_video_filepath af (single_item_of ty entry)) \<and>
         snd (get_video_filename af meta) =
           snd (get_video_filename af (single_item_of ty entry)) \<and>
         snd (get_video_context af meta) =
           snd (get_video_context af (single_item_of ty entry)) \<and>
         (\<exists>e'. getitem (fst (get_video_filepath af meta)) ''entries'' = Inr (PList [e']) \<and>
               single_item_of ty e' = fst (get_video_filepath af (single_item_of ty entry))) \<and>
         (\<exists>e'. getitem (fst (get_video_context af meta)) ''entries'' = Inr (PList [e']) \<and>
               single_item_of ty e' = fst (get_video_context af (single_item_of ty entry)))"
proof -
  let ?single = "single_item_of ty entry"
  obtain d where meta: "meta = PDict d" and es: "map_of d ''entries'' = Some (PList [entry])"
    using assms(2) by (auto simp: getitem_Inr)
  have st: "getitem (store_first_entry meta (PList [entry]) e') ''entries'' = Inr (PList [e'])"
    for e'
    by (simp add: meta store_first_entry_def update_conv')
  have p: "get_video_filepath af meta =
             (case requested_video_of af entry of
                Inl e \<Rightarrow> (meta, Inl e)
              | Inr (entry', found) \<Rightarrow>
                  (store_first_entry meta (PList [entry]) entry', filepath_lookup found))"
    using assms(1,2)
    by (simp add: get_video_filepath_def entry_requested_video_def split: sum.splits prod.splits)
  have c: "get_video_context af meta =
             (case requested_video_of af entry of
                Inl e \<Rightarrow> (meta, Inl e)
              | Inr (entry', found) \<Rightarrow>
                  (store_first_entry meta (PList [entry]) entry', video_context_of entry' found))"
    using assms(1,2)
    by (simp add: get_video_context_def entry_requested_video_def split: sum.splits prod.splits)
  note t = single_item_of_type [of ty entry af]
  note r = requested_video_of_single_item_any [of af ty entry]
  have q: "get_video_filepath af ?single =
             (case requested_video_of af entry of
                Inl e \<Rightarrow> (?single, Inl e)
              | Inr (entry', found) \<Rightarrow> (single_item_of ty entry', filepath_lookup found))"
    using t assms(3) r
    by (auto simp: get_video_filepath_def split: sum.splits prod.splits)
  have k: "get_video_context af ?single =
             (case requested_video_of af entry of
                Inl e \<Rightarrow> (?single, Inl e)
              | Inr (entry', found) \<Rightarrow>
                  (single_item_of ty entry', video_context_of entry' found))"
    using t assms(3) r
    by (auto simp: get_video_context_def video_context_of_single_item
             split: sum.splits prod.splits)
  have 1: "snd (get_video_filepath af meta) = snd (get_video_filepath af ?single)"
    by (simp add: p q split: sum.splits prod.splits)
  have 2: "snd (get_video_filename af meta) = snd (get_video_filename af ?single)"
    by (simp add: get_video_filename_def p q split: sum.splits prod.splits)
  have 3: "snd (get_video_context af meta) = snd (get_video_context af ?single)"
    by (simp add: c k split: sum.splits prod.splits)
  have 4: "\<exists>e'. getitem (fst (get_video_filepath af meta)) ''entries'' = Inr (PList [e']) \<and>
                single_item_of ty e' = fst (get_video_filepath af ?single)"
    using assms(2) by (auto simp: p q st split: sum.splits prod.splits)
  have 5: "\<exists>e'. getitem (fst (get_video_context af meta)) ''entries'' = Inr (PList [e']) \<and>
                single_item_of ty e' = fst (get_video_context af ?single)"
    using assms(2) by (auto simp: c k st split: sum.splits prod.splits)
  from 1 2 3 4 5 show ?thesis by blast
qed

text \<open>
  C9 at the playlist whose one entry has no \<^verbatim>\<open>_type\<close>, compared with that entry as a
  \<^verbatim>\<open>video\<close>: both give the file name \<^verbatim>\<open>clip.mp4\<close> and the same duration, width and
  height.
\<close>

theorem playlist_single_entry_witness:
  "snd (get_video_filepath ''m4a'' example_playlist) =
     snd (get_video_filepath ''m4a'' (single_item_of (PStr ''video'') example_entry)) \<and>
   snd (get_video_filename ''m4a'' example_playlist) =
     snd (get_video_filename ''m4a'' (single_item_of (PStr ''video'') example_entry)) \<and>
   snd (get_video_context ''m4a'' example_playlist) =
     snd (get_video_context ''m4a'' (single_item_of (PStr ''video'') example_entry)) \<and>
   snd (get_video_filename ''m4a'' example_playlist) = Inr ''clip.mp4'' \<and>
   snd (get_video_context ''m4a'' example_playlist) = Inr (PFloat 7, PInt 640, PInt 360)"
proof -
  have h1: "getitem example_playlist ''_type'' = Inr (PStr PLAYLIST_TYPE)"
    by (simp add: example_playlist_def PLAYLIST_TYPE_def)
  have h2: "getitem example_playlist ''entries'' = Inr (PList [example_entry])"
    by (simp add: example_playlist_def)
  have h3: "PStr ''video'' \<noteq> PStr PLAYLIST_TYPE"
    by (simp add: PLAYLIST_TYPE_def)
  have v: "snd (get_video_filename ''m4a'' example_playlist) = Inr ''clip.mp4'' \<and>
           snd (get_video_context ''m4a'' example_playlist) = Inr (PFloat 7, PInt 640, PInt 360)"
    by code_simp
  from playlist_single_entry [OF h1 h2 h3, of "''m4a''"] v show ?thesis by simp
qed

section \<open>The primary pass writes into the document\<close>

text \<open>
  C10, as amended. When the first loop matches a descriptor \<open>kv\<close> that carries an internal
  filename, it stores the normalized path (\<^verbatim>\<open>filepath\<close>, else \<^verbatim>\<open>filename\<close>, else the
  internal filename) under \<^verbatim>\<open>filepath\<close> in the descriptor of the caller's document, not
  in a copy: the list read from the document after \<^verbatim>\<open>_get_video_filepath\<close> has the
  descriptor so updated. The document is as it was exactly when the descriptor already
  had a \<^verbatim>\<open>filepath\<close>, the value stored being then the one it had.
\<close>

theorem primary_pass_in_place:
  assumes "list_all (has_audio_ext af) pre"
      and "\<not> has_audio_ext af (PDict kv)"
      and "map_of kv ''_filename'' = Some internal"
      and "consulted_downloads meta = Some (pre @ PDict kv # post)"
  shows "get_requested_video af (pre @ PDict kv # post) =
           Inr (pre @ PDict (AList.update ''filepath'' (normalized_filepath kv internal) kv) # post,
                PDict (AList.update ''filepath'' (normalized_filepath kv internal) kv)) \<and>
         consulted_downloads (fst (get_video_filepath af meta)) =
           Some (pre @ PDict (AList.update ''filepath'' (normalized_filepath kv internal) kv)
                       # post) \<and>
         (fst (get_video_filepath af meta) = meta \<longleftrightarrow> map_of kv ''filepath'' \<noteq> None)"
proof -
  let ?kv = "AList.update ''filepath'' (normalized_filepath kv internal) kv"
  have sel: "get_requested_video af (pre @ PDict kv # post) =
               Inr (pre @ PDict ?kv # post, PDict ?kv)"
    using primary_pass_select [OF assms(1,2,3), of post]
    by (simp add: get_requested_video_def)
  have doc: "fst (get_video_filepath af meta) = with_downloads meta (pre @ PDict ?kv # post)"
    by (simp add: get_video_filepath_consulted [OF assms(4)] sel)
  have rb: "consulted_downloads (fst (get_video_filepath af meta)) =
              Some (pre @ PDict ?kv # post)"
    unfolding doc by (rule consulted_with_downloads [OF assms(4)])
  have same: "?kv = kv \<longleftrightarrow> map_of kv ''filepath'' \<noteq> None"
    by (auto simp: update_same_iff normalized_filepath_def split: option.splits)
  have "fst (get_video_filepath af meta) = meta \<longleftrightarrow> ?kv = kv"
  proof
    assume "fst (get_video_filepath af meta) = meta"
    with rb assms(4) show "?kv = kv" by simp
  next
    assume "?kv = kv"
    with doc with_downloads_same [OF assms(4)] show "fst (get_video_filepath af meta) = meta"
      by simp
  qed
  with sel rb same show ?thesis by simp
qed

text \<open>
  C10, as amended, at the example document: its video descriptor has no \<^verbatim>\<open>filepath\<close>, so
  the document is changed.
\<close>

theorem primary_pass_in_place_witness:
  "get_requested_video ''m4a'' [example_audio, PDict example_video_kv] =
     Inr ([example_audio,
           PDict (example_video_kv @ [(''filepath'', PStr ''/tmp/s/clip.mp4'')])],
          PDict (example_video_kv @ [(''filepath'', PStr ''/tmp/s/clip.mp4'')])) \<and>
   consulted_downloads (fst (get_video_filepath ''m4a'' example_meta)) =
     Some [example_audio, PDict (example_video_kv @ [(''filepath'', PStr ''/tmp/s/clip.mp4'')])] \<and>
   fst (get_video_filepath ''m4a'' example_meta) \<noteq> example_meta"
proof -
  have h1: "list_all (has_audio_ext ''m4a'') [example_audio]"
    by code_simp
  have h2: "\<not> has_audio_ext ''m4a'' (PDict example_video_kv)"
    by code_simp
  have h3: "map_of example_video_kv ''_filename'' = Some (PStr ''clip.mp4'')"
    by (simp add: example_video_kv_def)
  have h4: "consulted_downloads example_meta = Some ([example_audio] @ PDict example_video_kv # [])"
    by code_simp
  have u: "AList.update ''filepath'' (normalized_filepath example_video_kv (PStr ''clip.mp4''))
             example_video_kv =
           example_video_kv @ [(''filepath'', PStr ''/tmp/s/clip.mp4'')]"
    by (simp add: example_video_kv_def normalized_filepath_def)
  have n: "map_of example_video_kv ''filepath'' = None"
    by (simp add: example_video_kv_def)
  from primary_pass_in_place [OF h1 h2 h3 h4] u n show ?thesis by simp
qed

text \<open>
  C10 as stated fails when the matched descriptor has a \<^verbatim>\<open>filepath\<close>: the first loop
  matches the video descriptor, and the document after the call is the document before
  it.
\<close>

theorem primary_pass_in_place_counterexample:
  "primary_pass ''m4a'' [example_audio, example_video_with_path] =
     Inr (Some ([example_audio, example_video_with_path], example_video_with_path)) \<and>
   fst (get_video_filepath ''m4a'' example_meta_with_path) = example_meta_with_path"
  by code_simp

end
